theory Spec2Isabelle
  imports Complex_Main "HOL-Library.Product_Lexorder" "HOL-Library.Log_Nat"
begin

section \<open>The players table and the values of the API\<close>

text \<open>
  The server keeps no state of its own: every handler of \<^verbatim>\<open>server.py\<close> runs one or two
  SQL statements against the table \<^verbatim>\<open>players\<close>. The table is modelled as the list of its
  rows; a handler takes the committed table and returns its answer (and, for a handler
  that writes, the table it leaves committed).

  What lies outside the repository:
  \<^item> the connection is taken to succeed (its failure is raised before any handler's
    \<^verbatim>\<open>try\<close> block and is the same for every handler);
  \<^item> the driver returns a fetched row in the form that the connection's cursor class
    gives it (see \<open>getitem\<close> below);
  \<^item> integer columns hold the integers of the request models, array columns hold a
    list of strings or NULL;
  \<^item> time is a number of microseconds.
\<close>

type_synonym timestamp = int

record player_row =
  player_id :: string
  total_money :: int
  total_clicks :: int
  best_streak :: int
  owned_power_ups :: "string list option"
  achievements :: "string list option"
  created_at :: "timestamp option"
  updated_at :: "timestamp option"

type_synonym players = "player_row list"

record PlayerData =
  total_money :: int
  total_clicks :: int
  best_streak :: int
  owned_power_ups :: "string list"
  achievements :: "string list"

record PlayerResponse =
  player_id :: string
  total_money :: int
  total_clicks :: int
  best_streak :: int
  owned_power_ups :: "string list"
  achievements :: "string list"

record ack =
  success :: bool
  message :: string

text \<open>
  Exceptions. \<^verbatim>\<open>HTTPException(status_code, detail)\<close> is what a handler raises;
  \<^verbatim>\<open>KeyError(k)\<close> is what a dictionary raises for a key \<open>k\<close> it does not have; the
  driver raises \<^verbatim>\<open>ValueError\<close> for a parameter it cannot send,
  \<^verbatim>\<open>UniqueViolation\<close> for a duplicate key,
  \<^verbatim>\<open>InvalidRowCountInLimitClause\<close> for a negative \<^verbatim>\<open>LIMIT\<close> and
  \<^verbatim>\<open>NumericValueOutOfRange\<close> for one that is no 64-bit integer. The detail of a
  re-raised exception is \<^verbatim>\<open>str(e)\<close>, kept here as the exception it was taken from.
\<close>

datatype exc =
    HTTPException nat detail
  | KeyError nat
  | ValueError
  | UniqueViolation
  | InvalidRowCountInLimitClause
  | NumericValueOutOfRange
and detail =
    Msg string
  | StrOf exc

text \<open>
  Every handler ends with \<^verbatim>\<open>except Exception as e: raise HTTPException(status_code=500,
  detail=str(e))\<close>. \<^verbatim>\<open>HTTPException\<close> is itself an \<^verbatim>\<open>Exception\<close>, so the clause
  also catches the ones raised inside the \<^verbatim>\<open>try\<close> block.
\<close>

definition except_Exception :: "exc + 'a \<Rightarrow> exc + 'a" where
  "except_Exception r = (case r of Inl e \<Rightarrow> Inl (HTTPException 500 (StrOf e)) | Inr v \<Rightarrow> Inr v)"

text \<open>Statements in sequence: the first exception ends the block.\<close>

definition and_then :: "exc + 'a \<Rightarrow> ('a \<Rightarrow> exc + 'b) \<Rightarrow> exc + 'b" where
  "and_then m f = (case m of Inl e \<Rightarrow> Inl e | Inr v \<Rightarrow> f v)"

fun for_each :: "('a \<Rightarrow> exc + 'b) \<Rightarrow> 'a list \<Rightarrow> exc + 'b list" where
  "for_each f [] = Inr []"
| "for_each f (x # xs) = and_then (f x) (\<lambda>y. and_then (for_each f xs) (\<lambda>ys. Inr (y # ys)))"

subsection \<open>The connection and its rows\<close>

text \<open>
  \<^verbatim>\<open>get_db_connection\<close> calls \<^verbatim>\<open>psycopg2.connect(..., cursor_factory=RealDictCursor)\<close>:
  every cursor of the connection is a \<^verbatim>\<open>RealDictCursor\<close>. The driver's cursor classes
  differ in the rows that \<^verbatim>\<open>fetchone()\<close> and \<^verbatim>\<open>fetchall()\<close> return: the default cursor
  returns tuples, read by position; a \<^verbatim>\<open>RealDictCursor\<close> returns dictionaries keyed by
  column name, which have no integer key.
\<close>

datatype cursor_factory = TupleCursor | RealDictCursor

record connection =
  cursor_factory :: cursor_factory

definition get_db_connection :: connection where
  "get_db_connection = \<lparr>cursor_factory = RealDictCursor\<rparr>"

text \<open>A connection with the driver's default cursor, for comparison.\<close>

definition tuple_connection :: connection where
  "tuple_connection = \<lparr>cursor_factory = TupleCursor\<rparr>"

text \<open>
  \<^verbatim>\<open>result[i]\<close> on a fetched row. A row is modelled as the record of the selected
  columns; \<open>column\<close> is the one at position \<open>i\<close> of the \<^verbatim>\<open>SELECT\<close> list. On a tuple the
  subscript is that column's value; on a \<^verbatim>\<open>RealDictCursor\<close> row it raises
  \<^verbatim>\<open>KeyError(i)\<close>.
\<close>

definition getitem :: "connection \<Rightarrow> 'row \<Rightarrow> nat \<Rightarrow> ('row \<Rightarrow> 'a) \<Rightarrow> exc + 'a" where
  "getitem conn result i column =
     (case cursor_factory conn of
        TupleCursor \<Rightarrow> Inr (column result)
      | RealDictCursor \<Rightarrow> Inl (KeyError i))"

text \<open>Python's \<^verbatim>\<open>x or []\<close>: the list itself unless it is \<^verbatim>\<open>None\<close> (or empty).\<close>

definition or_empty :: "'a list option \<Rightarrow> 'a list" where
  "or_empty x = (case x of None \<Rightarrow> [] | Some xs \<Rightarrow> (if xs = [] then [] else xs))"

section \<open>Player store: get, save, reset\<close>

text \<open>\<^verbatim>\<open>SELECT ... FROM players WHERE player_id = %s\<close> followed by \<^verbatim>\<open>fetchone()\<close>.\<close>

definition fetch_player :: "string \<Rightarrow> players \<Rightarrow> player_row option" where
  "fetch_player pid db = find (\<lambda>r. player_row.player_id r = pid) db"

text \<open>
  Modelled from the spec: the table definition is not in the repository; the
  specification gives \<^verbatim>\<open>created_at\<close> as set on insert and \<^verbatim>\<open>updated_at\<close> as refreshed on
  every mutation, so a column the \<^verbatim>\<open>INSERT\<close> does not name takes the current time.
\<close>

definition column_default :: "timestamp \<Rightarrow> timestamp option" where
  "column_default now = Some now"

text \<open>
  \<^verbatim>\<open>INSERT INTO players (...) VALUES (%s, 0, 0, 0, '{}', '{}') RETURNING ...\<close>: the key is
  unique, so the statement raises when the row is there; otherwise it returns the new
  row (the result of \<^verbatim>\<open>fetchone()\<close>) and the table with it.
\<close>

definition insert_returning ::
  "timestamp \<Rightarrow> string \<Rightarrow> players \<Rightarrow> exc + (player_row option \<times> players)" where
  "insert_returning now pid db =
     (if fetch_player pid db \<noteq> None then Inl UniqueViolation
      else
        (let row = \<lparr>player_row.player_id = pid,
                    player_row.total_money = 0,
                    player_row.total_clicks = 0,
                    player_row.best_streak = 0,
                    player_row.owned_power_ups = Some [],
                    player_row.achievements = Some [],
                    created_at = column_default now,
                    updated_at = column_default now\<rparr>
         in Inr (Some row, db @ [row])))"

text \<open>
  \<^verbatim>\<open>PlayerResponse(player_id=result[0], ..., achievements=result[5] or [])\<close>: the
  arguments are evaluated from left to right.
\<close>

definition PlayerResponse_of :: "connection \<Rightarrow> player_row \<Rightarrow> exc + PlayerResponse" where
  "PlayerResponse_of conn result =
     and_then (getitem conn result 0 player_row.player_id) (\<lambda>r0.
     and_then (getitem conn result 1 player_row.total_money) (\<lambda>r1.
     and_then (getitem conn result 2 player_row.total_clicks) (\<lambda>r2.
     and_then (getitem conn result 3 player_row.best_streak) (\<lambda>r3.
     and_then (getitem conn result 4 player_row.owned_power_ups) (\<lambda>r4.
     and_then (getitem conn result 5 player_row.achievements) (\<lambda>r5.
       Inr \<lparr>PlayerResponse.player_id = r0,
            PlayerResponse.total_money = r1,
            PlayerResponse.total_clicks = r2,
            PlayerResponse.best_streak = r3,
            PlayerResponse.owned_power_ups = or_empty r4,
            PlayerResponse.achievements = or_empty r5\<rparr>))))))"

text \<open>What the constructor gives when every subscript gives its column.\<close>

definition response_of :: "player_row \<Rightarrow> PlayerResponse" where
  "response_of result =
     \<lparr>PlayerResponse.player_id = player_row.player_id result,
      PlayerResponse.total_money = player_row.total_money result,
      PlayerResponse.total_clicks = player_row.total_clicks result,
      PlayerResponse.best_streak = player_row.best_streak result,
      PlayerResponse.owned_power_ups = or_empty (player_row.owned_power_ups result),
      PlayerResponse.achievements = or_empty (player_row.achievements result)\<rparr>"

text \<open>
  \<^verbatim>\<open>get_player\<close>, on the connection it has opened. The handler runs two statements
  when the row is not found; \<open>env\<close> is what other sessions commit between its
  \<^verbatim>\<open>SELECT\<close> and its \<^verbatim>\<open>INSERT\<close> (the identity when nothing happens in between). A
  failed \<^verbatim>\<open>INSERT\<close> is rolled back, so the table is left as the other sessions made
  it; the new row is committed before the answer is built, so an exception after the
  \<^verbatim>\<open>commit()\<close> leaves the row in the table.
\<close>

definition get_player_on ::
  "connection \<Rightarrow> timestamp \<Rightarrow> (players \<Rightarrow> players) \<Rightarrow> string \<Rightarrow> players
     \<Rightarrow> (exc + PlayerResponse) \<times> players" where
  "get_player_on conn now env pid db =
     (case fetch_player pid db of
        Some result \<Rightarrow> (except_Exception (PlayerResponse_of conn result), db)
      | None \<Rightarrow>
          (case insert_returning now pid (env db) of
             Inl e \<Rightarrow> (except_Exception (Inl e), env db)
           | Inr (result, db') \<Rightarrow>
               (case result of
                  Some r \<Rightarrow> (except_Exception (PlayerResponse_of conn r), db')
                | None \<Rightarrow>
                    (except_Exception
                       (Inl (HTTPException 500 (Msg ''Failed to create new player''))), db'))))"

definition get_player ::
  "timestamp \<Rightarrow> (players \<Rightarrow> players) \<Rightarrow> string \<Rightarrow> players \<Rightarrow> (exc + PlayerResponse) \<times> players" where
  "get_player now env pid db = get_player_on get_db_connection now env pid db"

text \<open>
  Another session running \<^verbatim>\<open>get_player\<close> for the same player to completion, as the
  interference a handler may meet between its two statements.
\<close>

definition concurrent_get_player :: "timestamp \<Rightarrow> string \<Rightarrow> players \<Rightarrow> players" where
  "concurrent_get_player now pid db = snd (get_player now id pid db)"

text \<open>
  \<^verbatim>\<open>save_player\<close>: \<^verbatim>\<open>INSERT ... ON CONFLICT (player_id) DO UPDATE SET ...\<close>. An existing
  row keeps its key and \<^verbatim>\<open>created_at\<close>; a new row takes the column defaults.
\<close>

definition upsert :: "timestamp \<Rightarrow> string \<Rightarrow> PlayerData \<Rightarrow> players \<Rightarrow> players" where
  "upsert now pid data db =
     (if fetch_player pid db \<noteq> None then
        map (\<lambda>r. if player_row.player_id r = pid
                 then r\<lparr>player_row.total_money := PlayerData.total_money data,
                        player_row.total_clicks := PlayerData.total_clicks data,
                        player_row.best_streak := PlayerData.best_streak data,
                        player_row.owned_power_ups := Some (PlayerData.owned_power_ups data),
                        player_row.achievements := Some (PlayerData.achievements data),
                        updated_at := Some now\<rparr>
                 else r) db
      else
        db @ [\<lparr>player_row.player_id = pid,
                player_row.total_money = PlayerData.total_money data,
                player_row.total_clicks = PlayerData.total_clicks data,
                player_row.best_streak = PlayerData.best_streak data,
                player_row.owned_power_ups = Some (PlayerData.owned_power_ups data),
                player_row.achievements = Some (PlayerData.achievements data),
                created_at = column_default now,
                updated_at = column_default now\<rparr>])"

definition save_player ::
  "timestamp \<Rightarrow> string \<Rightarrow> PlayerData \<Rightarrow> players \<Rightarrow> (exc + ack) \<times> players" where
  "save_player now pid data db =
     (except_Exception (Inr \<lparr>success = True, message = ''Data saved successfully''\<rparr>),
      upsert now pid data db)"

text \<open>
  The driver puts the parameters of a statement into its text before it sends it, and
  refuses a string with a NUL character: \<^verbatim>\<open>cur.execute\<close> raises \<^verbatim>\<open>ValueError\<close> and
  the statement does not reach the engine. A path parameter can hold such a character
  (\<^verbatim>\<open>%00\<close> in the URL).
\<close>

definition adapt :: "string \<Rightarrow> exc + string" where
  "adapt s = (if CHR 0x00 \<in> set s then Inl ValueError else Inr s)"

definition reset_row :: "timestamp \<Rightarrow> player_row \<Rightarrow> player_row" where
  "reset_row now r =
     r\<lparr>player_row.total_money := 0,
       player_row.total_clicks := 0,
       player_row.best_streak := 0,
       player_row.owned_power_ups := Some [],
       player_row.achievements := Some [],
       updated_at := Some now\<rparr>"

text \<open>
  \<^verbatim>\<open>reset_player\<close>: \<^verbatim>\<open>UPDATE players SET ... WHERE player_id = %s\<close>. When
  \<^verbatim>\<open>cur.execute\<close> raises, the handler rolls back and answers 500; the table is as it
  was. (The other handlers are modelled for the ids that the driver accepts; at a refused
  id they answer the internal error 500 too, with the \<^verbatim>\<open>ValueError\<close> as detail.)
\<close>

definition reset_player :: "timestamp \<Rightarrow> string \<Rightarrow> players \<Rightarrow> (exc + ack) \<times> players" where
  "reset_player now pid db =
     (case adapt pid of
        Inl e \<Rightarrow> (except_Exception (Inl e), db)
      | Inr p \<Rightarrow>
          (except_Exception
             (Inr \<lparr>success = True, message = ''Player data reset successfully''\<rparr>),
           map (\<lambda>r. if player_row.player_id r = p then reset_row now r else r) db))"

section \<open>Aggregate queries: leaderboard, statistics, rank\<close>

text \<open>
  The three read-only handlers, each on the connection it has opened. Each runs its
  statements on the committed table; the two statements of \<^verbatim>\<open>get_leaderboard\<close> and of
  \<^verbatim>\<open>get_player_rank\<close> are taken to read the same table.
\<close>

definition hour :: int where
  "hour = 3600000000"

text \<open>\<^verbatim>\<open>WHERE total_money > 0\<close>: the positive-earnings population.\<close>

definition earners :: "players \<Rightarrow> players" where
  "earners db = filter (\<lambda>r. player_row.total_money r > 0) db"

text \<open>
  \<^verbatim>\<open>ORDER BY total_money DESC, total_clicks DESC\<close>. SQL leaves open the order of rows
  that agree on every key of the \<^verbatim>\<open>ORDER BY\<close>; \<open>tie\<close> is the order in which the
  executor happens to return such rows in one execution of one statement (rows it
  does not separate stay in table order).
\<close>

definition sort_keys :: "(string \<Rightarrow> int) \<Rightarrow> player_row \<Rightarrow> int \<times> int \<times> int" where
  "sort_keys tie r =
     (- player_row.total_money r, - player_row.total_clicks r, tie (player_row.player_id r))"

definition order_by :: "(string \<Rightarrow> int) \<Rightarrow> players \<Rightarrow> players" where
  "order_by tie rows = sort_key (sort_keys tie) rows"

definition table_order :: "string \<Rightarrow> int" where
  "table_order pid = 0"

text \<open>\<^verbatim>\<open>array_length(a, 1)\<close> is NULL for NULL and for the empty array.\<close>

definition array_length :: "'a list option \<Rightarrow> int option" where
  "array_length a =
     (case a of None \<Rightarrow> None | Some xs \<Rightarrow> (if xs = [] then None else Some (int (length xs))))"

text \<open>
  The \<^verbatim>\<open>CASE\<close> on \<^verbatim>\<open>updated_at\<close>: a comparison with NULL is not true, so a NULL
  timestamp falls through to \<^verbatim>\<open>'offline'\<close>.
\<close>

definition newer_than :: "timestamp option \<Rightarrow> timestamp \<Rightarrow> bool" where
  "newer_than u t = (case u of None \<Rightarrow> False | Some v \<Rightarrow> v > t)"

definition activity_status :: "timestamp \<Rightarrow> timestamp option \<Rightarrow> string" where
  "activity_status now u =
     (if newer_than u (now - hour) then ''online''
      else if newer_than u (now - 24 * hour) then ''recent''
      else ''offline'')"

record leaderboard_result =
  player_id :: string
  total_money :: int
  total_clicks :: int
  best_streak :: int
  achievement_count :: "int option"
  power_up_count :: "int option"
  created_at :: "timestamp option"
  updated_at :: "timestamp option"
  status :: string

definition select_leaderboard_columns :: "timestamp \<Rightarrow> player_row \<Rightarrow> leaderboard_result" where
  "select_leaderboard_columns now r =
     \<lparr>leaderboard_result.player_id = player_row.player_id r,
      leaderboard_result.total_money = player_row.total_money r,
      leaderboard_result.total_clicks = player_row.total_clicks r,
      leaderboard_result.best_streak = player_row.best_streak r,
      achievement_count = array_length (player_row.achievements r),
      power_up_count = array_length (player_row.owned_power_ups r),
      leaderboard_result.created_at = player_row.created_at r,
      leaderboard_result.updated_at = player_row.updated_at r,
      status = activity_status now (player_row.updated_at r)\<rparr>"

text \<open>
  The leaderboard statement. \<^verbatim>\<open>LIMIT\<close> takes a 64-bit integer that is not negative;
  any other value is an error of the engine.
\<close>

definition leaderboard_query ::
  "timestamp \<Rightarrow> (string \<Rightarrow> int) \<Rightarrow> int \<Rightarrow> players \<Rightarrow> exc + leaderboard_result list" where
  "leaderboard_query now tie limit db =
     (if limit < 0 then Inl InvalidRowCountInLimitClause
      else if limit > 9223372036854775807 then Inl NumericValueOutOfRange
      else Inr (map (select_leaderboard_columns now)
                  (take (nat limit) (order_by tie (earners db)))))"

text \<open>\<^verbatim>\<open>SELECT COUNT(*) FROM players WHERE total_money > 0\<close> and \<^verbatim>\<open>fetchone()\<close>.\<close>

definition count_query :: "players \<Rightarrow> int option" where
  "count_query db = Some (int (length (earners db)))"

record leaderboard_entry =
  rank :: int
  player_id :: string
  total_money :: int
  total_clicks :: int
  best_streak :: int
  achievement_count :: int
  power_up_count :: int
  status :: string
  last_active :: "timestamp option"

record leaderboard_response =
  leaderboard :: "leaderboard_entry list"
  total_players :: int
  last_updated :: timestamp

text \<open>Python's \<^verbatim>\<open>x or 0\<close> on an integer that may be \<^verbatim>\<open>None\<close>.\<close>

definition or_zero :: "int option \<Rightarrow> int" where
  "or_zero x = (case x of None \<Rightarrow> 0 | Some n \<Rightarrow> (if n = 0 then 0 else n))"

text \<open>
  One dictionary of the leaderboard, for the pair \<^verbatim>\<open>(i, result)\<close> of
  \<^verbatim>\<open>enumerate(results, 1)\<close>; its entries are evaluated in the order written.
  \<^verbatim>\<open>last_active\<close> is the timestamp that \<^verbatim>\<open>isoformat()\<close> prints.
\<close>

definition leaderboard_append ::
  "connection \<Rightarrow> nat \<times> leaderboard_result \<Rightarrow> exc + leaderboard_entry" where
  "leaderboard_append conn p =
     (case p of (i, result) \<Rightarrow>
        and_then (getitem conn result 0 leaderboard_result.player_id) (\<lambda>r0.
        and_then (getitem conn result 1 leaderboard_result.total_money) (\<lambda>r1.
        and_then (getitem conn result 2 leaderboard_result.total_clicks) (\<lambda>r2.
        and_then (getitem conn result 3 leaderboard_result.best_streak) (\<lambda>r3.
        and_then (getitem conn result 4 leaderboard_result.achievement_count) (\<lambda>r4.
        and_then (getitem conn result 5 leaderboard_result.power_up_count) (\<lambda>r5.
        and_then (getitem conn result 8 leaderboard_result.status) (\<lambda>r8.
        and_then (getitem conn result 7 leaderboard_result.updated_at) (\<lambda>r7.
          Inr \<lparr>rank = int i,
               leaderboard_entry.player_id = r0,
               leaderboard_entry.total_money = r1,
               leaderboard_entry.total_clicks = r2,
               leaderboard_entry.best_streak = r3,
               leaderboard_entry.achievement_count = or_zero r4,
               leaderboard_entry.power_up_count = or_zero r5,
               leaderboard_entry.status = r8,
               last_active = r7\<rparr>)))))))))"

text \<open>The dictionary when every subscript gives its column.\<close>

definition leaderboard_entry_of :: "nat \<times> leaderboard_result \<Rightarrow> leaderboard_entry" where
  "leaderboard_entry_of p =
     (case p of (i, result) \<Rightarrow>
        \<lparr>rank = int i,
         leaderboard_entry.player_id = leaderboard_result.player_id result,
         leaderboard_entry.total_money = leaderboard_result.total_money result,
         leaderboard_entry.total_clicks = leaderboard_result.total_clicks result,
         leaderboard_entry.best_streak = leaderboard_result.best_streak result,
         leaderboard_entry.achievement_count = or_zero (leaderboard_result.achievement_count result),
         leaderboard_entry.power_up_count = or_zero (leaderboard_result.power_up_count result),
         leaderboard_entry.status = leaderboard_result.status result,
         last_active = leaderboard_result.updated_at result\<rparr>)"

text \<open>
  \<^verbatim>\<open>total_result[0] if total_result else 0\<close>, on the one-column row of a
  \<^verbatim>\<open>COUNT(*)\<close>.
\<close>

definition total_of :: "connection \<Rightarrow> int option \<Rightarrow> exc + int" where
  "total_of conn total_result =
     (case total_result of None \<Rightarrow> Inr 0 | Some row \<Rightarrow> getitem conn row 0 (\<lambda>c. c))"

text \<open>\<^verbatim>\<open>get_leaderboard\<close>; \<open>clock\<close> is the server's \<^verbatim>\<open>datetime.now()\<close>.\<close>

definition get_leaderboard_on ::
  "connection \<Rightarrow> timestamp \<Rightarrow> timestamp \<Rightarrow> (string \<Rightarrow> int) \<Rightarrow> int \<Rightarrow> players
     \<Rightarrow> exc + leaderboard_response" where
  "get_leaderboard_on conn now clock tie limit db =
     except_Exception
       (and_then (leaderboard_query now tie limit db) (\<lambda>results.
        and_then (for_each (leaderboard_append conn) (List.enumerate 1 results)) (\<lambda>leaderboard.
        and_then (total_of conn (count_query db)) (\<lambda>total_players.
          Inr \<lparr>leaderboard = leaderboard,
               total_players = total_players,
               last_updated = clock\<rparr>))))"

definition get_leaderboard ::
  "timestamp \<Rightarrow> timestamp \<Rightarrow> (string \<Rightarrow> int) \<Rightarrow> int \<Rightarrow> players \<Rightarrow> exc + leaderboard_response" where
  "get_leaderboard now clock tie limit db = get_leaderboard_on get_db_connection now clock tie limit db"

text \<open>
  The statistics statement. Over no rows \<^verbatim>\<open>SUM\<close>, \<^verbatim>\<open>MAX\<close> and \<^verbatim>\<open>AVG\<close> are NULL and
  \<^verbatim>\<open>COUNT\<close> is 0. \<^verbatim>\<open>AVG\<close> is a decimal quotient, rounded by the engine to its own scale:
  the division is the parameter \<open>numeric_div\<close>.
\<close>

definition sql_sum :: "int list \<Rightarrow> int option" where
  "sql_sum xs = (if xs = [] then None else Some (sum_list xs))"

fun sql_max :: "int list \<Rightarrow> int option" where
  "sql_max [] = None"
| "sql_max (x # xs) = Some (fold max xs x)"

definition sql_avg :: "(int \<Rightarrow> int \<Rightarrow> rat) \<Rightarrow> int list \<Rightarrow> rat option" where
  "sql_avg numeric_div xs =
     (if xs = [] then None else Some (numeric_div (sum_list xs) (int (length xs))))"

record stats_result =
  total_players :: "int option"
  total_money_earned :: "int option"
  total_clicks :: "int option"
  highest_earnings :: "int option"
  most_clicks :: "int option"
  best_streak_global :: "int option"
  avg_money :: "rat option"
  avg_clicks :: "rat option"
  active_players :: "int option"
  daily_active_players :: "int option"

definition stats_query :: "(int \<Rightarrow> int \<Rightarrow> rat) \<Rightarrow> timestamp \<Rightarrow> players \<Rightarrow> stats_result" where
  "stats_query numeric_div now db =
     (let rows = earners db in
      \<lparr>stats_result.total_players = Some (int (length rows)),
       total_money_earned = sql_sum (map player_row.total_money rows),
       stats_result.total_clicks = sql_sum (map player_row.total_clicks rows),
       highest_earnings = sql_max (map player_row.total_money rows),
       most_clicks = sql_max (map player_row.total_clicks rows),
       best_streak_global = sql_max (map player_row.best_streak rows),
       avg_money = sql_avg numeric_div (map player_row.total_money rows),
       avg_clicks = sql_avg numeric_div (map player_row.total_clicks rows),
       active_players =
         Some (int (length (filter (\<lambda>r. newer_than (player_row.updated_at r) (now - hour)) rows))),
       daily_active_players =
         Some (int (length (filter (\<lambda>r. newer_than (player_row.updated_at r) (now - 24 * hour)) rows)))\<rparr>)"

text \<open>\<^verbatim>\<open>int(x or 0)\<close> on a decimal that may be \<^verbatim>\<open>None\<close>: \<^verbatim>\<open>int\<close> truncates towards zero.\<close>

definition int_or_zero :: "rat option \<Rightarrow> int" where
  "int_or_zero x =
     (case x of None \<Rightarrow> 0 | Some q \<Rightarrow> (if q = 0 then 0 else if q < 0 then - \<lfloor>- q\<rfloor> else \<lfloor>q\<rfloor>))"

record stats =
  total_players :: int
  total_money_earned :: int
  total_clicks :: int
  highest_earnings :: int
  most_clicks :: int
  best_streak_global :: int
  average_money :: int
  average_clicks :: int
  active_players :: int
  daily_active_players :: int

record stats_response =
  global_stats :: stats
  last_updated :: timestamp

definition get_global_stats_on ::
  "connection \<Rightarrow> (int \<Rightarrow> int \<Rightarrow> rat) \<Rightarrow> timestamp \<Rightarrow> timestamp \<Rightarrow> players
     \<Rightarrow> exc + stats_response" where
  "get_global_stats_on conn numeric_div now clock db =
     except_Exception
       (let stats = stats_query numeric_div now db in
        and_then (getitem conn stats 0 stats_result.total_players) (\<lambda>s0.
        and_then (getitem conn stats 1 stats_result.total_money_earned) (\<lambda>s1.
        and_then (getitem conn stats 2 stats_result.total_clicks) (\<lambda>s2.
        and_then (getitem conn stats 3 stats_result.highest_earnings) (\<lambda>s3.
        and_then (getitem conn stats 4 stats_result.most_clicks) (\<lambda>s4.
        and_then (getitem conn stats 5 stats_result.best_streak_global) (\<lambda>s5.
        and_then (getitem conn stats 6 avg_money) (\<lambda>s6.
        and_then (getitem conn stats 7 avg_clicks) (\<lambda>s7.
        and_then (getitem conn stats 8 stats_result.active_players) (\<lambda>s8.
        and_then (getitem conn stats 9 stats_result.daily_active_players) (\<lambda>s9.
          Inr \<lparr>global_stats =
                 \<lparr>stats.total_players = or_zero s0,
                  stats.total_money_earned = or_zero s1,
                  stats.total_clicks = or_zero s2,
                  stats.highest_earnings = or_zero s3,
                  stats.most_clicks = or_zero s4,
                  stats.best_streak_global = or_zero s5,
                  average_money = int_or_zero s6,
                  average_clicks = int_or_zero s7,
                  stats.active_players = or_zero s8,
                  stats.daily_active_players = or_zero s9\<rparr>,
               stats_response.last_updated = clock\<rparr>)))))))))))"

definition get_global_stats ::
  "(int \<Rightarrow> int \<Rightarrow> rat) \<Rightarrow> timestamp \<Rightarrow> timestamp \<Rightarrow> players \<Rightarrow> exc + stats_response" where
  "get_global_stats numeric_div now clock db =
     get_global_stats_on get_db_connection numeric_div now clock db"

subsection \<open>Python's numbers in the rank handler\<close>

text \<open>
  The percentile is a Python \<^verbatim>\<open>float\<close> (an IEEE 754 binary64 number) unless the guard
  gives the integer 0. A finite float is modelled by the rational it denotes, and an
  operation by its exact result rounded to the nearest float, ties to the even
  significand: 53 significant bits, and multiples of 2 to the power -1074 below the normal
  range. The values of the handler lie between 0 and 100, far from overflow.
\<close>

datatype pynum = PyInt int | PyFloat rat

text \<open>
  The exponent of a positive rational: \<open>2 powi ilog2 x \<le> x < 2 powi (ilog2 x + 1)\<close>
  (\<open>bitlen\<close> is the number of binary digits of an integer).
\<close>

definition ilog2 :: "rat \<Rightarrow> int" where
  "ilog2 x =
     (case quotient_of x of (p, q) \<Rightarrow>
        (let d = bitlen p - bitlen q
         in if 2 powi d \<le> x then d else d - 1))"

definition round_half_even :: "rat \<Rightarrow> int" where
  "round_half_even x =
     (let f = \<lfloor>x\<rfloor>; r = x - of_int f
      in if r < 1 / 2 then f else if 1 / 2 < r then f + 1 else if even f then f else f + 1)"

definition fl :: "rat \<Rightarrow> rat" where
  "fl x =
     (if x = 0 then 0
      else
        (let e = max (ilog2 \<bar>x\<bar> - 52) (- 1074)
         in sgn x * of_int (round_half_even (\<bar>x\<bar> / 2 powi e)) * 2 powi e))"

text \<open>\<^verbatim>\<open>a / b\<close> on integers (\<open>b\<close> is not 0 where the handler divides), \<^verbatim>\<open>x * n\<close>.\<close>

definition py_truediv :: "int \<Rightarrow> int \<Rightarrow> rat" where
  "py_truediv a b = fl (of_int a / of_int b)"

definition py_mul :: "rat \<Rightarrow> int \<Rightarrow> rat" where
  "py_mul x n = fl (x * of_int n)"

text \<open>
  \<^verbatim>\<open>round(x, 1)\<close>: on a float, the decimal with one digit after the point nearest to
  the float's exact value (ties to the even digit), read back as a float; on an integer,
  the integer.
\<close>

definition py_round1 :: "pynum \<Rightarrow> pynum" where
  "py_round1 v =
     (case v of
        PyInt n \<Rightarrow> PyInt n
      | PyFloat x \<Rightarrow> PyFloat (fl (of_int (round_half_even (x * 10)) / 10)))"

subsection \<open>The rank handler\<close>

text \<open>
  \<^verbatim>\<open>ROW_NUMBER() OVER (ORDER BY total_money DESC, total_clicks DESC)\<close> over the
  positive-earnings population, then the row of the player: its number and its money.
\<close>

definition rank_query :: "(string \<Rightarrow> int) \<Rightarrow> string \<Rightarrow> players \<Rightarrow> (int \<times> int) option" where
  "rank_query tie pid db =
     map_option (\<lambda>(i, r). (int i, player_row.total_money r))
       (find (\<lambda>(i, r). player_row.player_id r = pid)
          (List.enumerate 1 (order_by tie (earners db))))"

record rank_response =
  player_id :: string
  rank :: int
  total_players :: int
  percentile :: pynum
  earnings :: int

text \<open>
  \<^verbatim>\<open>((total - result[0]) / total * 100) if total > 0 else 0\<close>, the percentile before it
  is rounded.
\<close>

definition percentile_of :: "int \<Rightarrow> int \<Rightarrow> pynum" where
  "percentile_of tot rk =
     (if tot > 0 then PyFloat (py_mul (py_truediv (tot - rk) tot) 100) else PyInt 0)"

definition get_player_rank_on ::
  "connection \<Rightarrow> (string \<Rightarrow> int) \<Rightarrow> string \<Rightarrow> players \<Rightarrow> exc + rank_response" where
  "get_player_rank_on conn tie pid db =
     except_Exception
       (case rank_query tie pid db of
          None \<Rightarrow> Inl (HTTPException 404 (Msg ''Player not found or no earnings''))
        | Some result \<Rightarrow>
            and_then (total_of conn (count_query db)) (\<lambda>total.
            and_then (if total > 0
                      then and_then (getitem conn result 0 fst) (\<lambda>r0. Inr (percentile_of total r0))
                      else Inr (percentile_of total 0)) (\<lambda>percentile.
            and_then (getitem conn result 0 fst) (\<lambda>r0.
            and_then (getitem conn result 1 snd) (\<lambda>r1.
              Inr \<lparr>rank_response.player_id = pid,
                   rank_response.rank = r0,
                   rank_response.total_players = total,
                   percentile = py_round1 percentile,
                   earnings = r1\<rparr>)))))"

definition get_player_rank :: "(string \<Rightarrow> int) \<Rightarrow> string \<Rightarrow> players \<Rightarrow> exc + rank_response" where
  "get_player_rank tie pid db = get_player_rank_on get_db_connection tie pid db"

section \<open>Sample tables\<close>

definition carol_row :: player_row where
  "carol_row = \<lparr>player_row.player_id = ''carol'', total_money = 40, total_clicks = 9,
                 best_streak = 3, owned_power_ups = None, achievements = Some [''first_click''],
                 created_at = Some 2, updated_at = Some 6\<rparr>"


text \<open>A player id with a NUL character, as \<^verbatim>\<open>a%00b\<close> in a URL gives it.\<close>

definition nul_id :: string where
  "nul_id = [CHR ''a'', CHR 0x00, CHR ''b'']"

definition alice_row :: player_row where
  "alice_row = \<lparr>player_row.player_id = ''alice'', total_money = 100, total_clicks = 50,
                 best_streak = 5, owned_power_ups = Some [''double_tap''],
                 achievements = Some [''first_click''],
                 created_at = Some 1, updated_at = Some 5\<rparr>"

definition bob_row :: player_row where
  "bob_row = \<lparr>player_row.player_id = ''bob'', total_money = 200, total_clicks = 30,
               best_streak = 2, owned_power_ups = Some [], achievements = Some [],
               created_at = Some 7, updated_at = Some 7\<rparr>"

definition idle_row :: player_row where
  "idle_row = \<lparr>player_row.player_id = ''eve'', total_money = 0, total_clicks = 12,
                best_streak = 1, owned_power_ups = Some [], achievements = None,
                created_at = Some 3, updated_at = Some 3\<rparr>"

definition sample_db :: players where
  "sample_db = [alice_row, idle_row, bob_row]"





text \<open>Five players with the same money and the same clicks, in the order of their insertion.\<close>

definition p1_row :: player_row where
  "p1_row = \<lparr>player_row.player_id = ''p1'', total_money = 100, total_clicks = 10,
              best_streak = 1, owned_power_ups = Some [], achievements = Some [],
              created_at = Some 1, updated_at = Some 1\<rparr>"

definition p2_row :: player_row where
  "p2_row = \<lparr>player_row.player_id = ''p2'', total_money = 100, total_clicks = 10,
              best_streak = 1, owned_power_ups = Some [], achievements = Some [],
              created_at = Some 2, updated_at = Some 2\<rparr>"

definition p3_row :: player_row where
  "p3_row = \<lparr>player_row.player_id = ''p3'', total_money = 100, total_clicks = 10,
              best_streak = 1, owned_power_ups = Some [], achievements = Some [],
              created_at = Some 3, updated_at = Some 3\<rparr>"

definition p4_row :: player_row where
  "p4_row = \<lparr>player_row.player_id = ''p4'', total_money = 100, total_clicks = 10,
              best_streak = 1, owned_power_ups = Some [], achievements = Some [],
              created_at = Some 4, updated_at = Some 4\<rparr>"

definition p5_row :: player_row where
  "p5_row = \<lparr>player_row.player_id = ''p5'', total_money = 100, total_clicks = 10,
              best_streak = 1, owned_power_ups = Some [], achievements = Some [],
              created_at = Some 5, updated_at = Some 5\<rparr>"

definition five_tied :: players where
  "five_tied = [p1_row, p2_row, p3_row, p4_row, p5_row]"

text \<open>
  The leaderboard statement has a \<^verbatim>\<open>LIMIT\<close>, the rank statement has none. An executor
  may run a sort under \<^verbatim>\<open>LIMIT 2\<close> as a bounded sort, which keeps the two first rows
  seen so far in a heap and drops a row that is not before them; the heap, emptied,
  gives the rows it kept from its last to its root. Of the five tied rows it keeps
  \<^verbatim>\<open>p1\<close> (the root) and \<^verbatim>\<open>p2\<close>, and returns \<^verbatim>\<open>p2\<close>, then \<^verbatim>\<open>p1\<close>. A sort of the whole
  population leaves the five rows in table order (\<^const>\<open>table_order\<close>).
\<close>

definition top_n_order :: "string \<Rightarrow> int" where
  "top_n_order pid = (if pid = ''p2'' then 0 else if pid = ''p1'' then 1 else 2)"

text \<open>A numeric division for the samples: the exact quotient.\<close>

definition exact_div :: "int \<Rightarrow> int \<Rightarrow> rat" where
  "exact_div a b = Fract a b"









section \<open>Properties of the player store\<close>

subsection \<open>Reading a fetched row\<close>

lemma and_then_Inr: "and_then (Inr v) f = f v"
  by (simp add: and_then_def)

lemma and_then_Inl: "and_then (Inl e) f = Inl e"
  by (simp add: and_then_def)

lemma getitem_tuple:
  "cursor_factory conn = TupleCursor \<Longrightarrow> getitem conn result i column = Inr (column result)"
  by (simp add: getitem_def)

lemma getitem_real_dict:
  "cursor_factory conn = RealDictCursor \<Longrightarrow> getitem conn result i column = Inl (KeyError i)"
  by (simp add: getitem_def)

lemma getitem_get_db_connection:
  "getitem get_db_connection result i column = Inl (KeyError i)"
  by (simp add: getitem_def get_db_connection_def)

lemma PlayerResponse_of_tuple:
  "cursor_factory conn = TupleCursor \<Longrightarrow> PlayerResponse_of conn result = Inr (response_of result)"
  by (simp add: PlayerResponse_of_def getitem_tuple and_then_Inr response_of_def)

lemma PlayerResponse_of_get_db_connection:
  "PlayerResponse_of get_db_connection result = Inl (KeyError 0)"
  by (simp add: PlayerResponse_of_def getitem_get_db_connection and_then_Inl)

subsection \<open>The statements of the player store\<close>

lemma fetch_player_append:
  "fetch_player pid (db @ [r]) =
     (case fetch_player pid db of
        Some x \<Rightarrow> Some x
      | None \<Rightarrow> (if player_row.player_id r = pid then Some r else None))"
  unfolding fetch_player_def by (induction db) auto

lemma fetch_player_Some:
  "fetch_player pid db = Some r \<Longrightarrow> r \<in> set db \<and> player_row.player_id r = pid"
  unfolding fetch_player_def by (auto simp: find_Some_iff)

lemma fetch_player_None:
  "fetch_player pid db = None \<longleftrightarrow> (\<forall>r \<in> set db. player_row.player_id r \<noteq> pid)"
  unfolding fetch_player_def by (auto simp: find_None_iff)

lemma fetch_player_map:
  assumes "\<And>r. player_row.player_id (f r) = player_row.player_id r"
  shows "fetch_player pid (map f db) = map_option f (fetch_player pid db)"
  unfolding fetch_player_def using assms by (induction db) auto

lemma get_player_on_found:
  "fetch_player pid db = Some r \<Longrightarrow>
     get_player_on conn now env pid db = (except_Exception (PlayerResponse_of conn r), db)"
  by (simp add: get_player_on_def)

lemma get_player_on_created:
  assumes "fetch_player pid db = None" and "fetch_player pid (env db) = None"
  shows "get_player_on conn now env pid db =
           (except_Exception
              (PlayerResponse_of conn
                 \<lparr>player_row.player_id = pid, total_money = 0, total_clicks = 0,
                  best_streak = 0, owned_power_ups = Some [], achievements = Some [],
                  created_at = Some now, updated_at = Some now\<rparr>),
            env db @ [\<lparr>player_row.player_id = pid, total_money = 0, total_clicks = 0,
                        best_streak = 0, owned_power_ups = Some [], achievements = Some [],
                        created_at = Some now, updated_at = Some now\<rparr>])"
  using assms
  by (simp add: get_player_on_def insert_returning_def column_default_def Let_def)

lemma fetch_player_upsert:
  "fetch_player pid (upsert now pid data db) \<noteq> None
   \<and> map_option response_of (fetch_player pid (upsert now pid data db)) =
     Some \<lparr>PlayerResponse.player_id = pid,
           total_money = PlayerData.total_money data,
           total_clicks = PlayerData.total_clicks data,
           best_streak = PlayerData.best_streak data,
           owned_power_ups = PlayerData.owned_power_ups data,
           achievements = PlayerData.achievements data\<rparr>"
proof (cases "fetch_player pid db")
  case None
  then show ?thesis
    by (simp add: upsert_def fetch_player_append response_of_def or_empty_def)
next
  case (Some r)
  then have "player_row.player_id r = pid" by (simp add: fetch_player_Some)
  with Some show ?thesis
    by (simp add: upsert_def fetch_player_map response_of_def or_empty_def)
qed

subsection \<open>\<^verbatim>\<open>get_player\<close> as the server runs it\<close>

text \<open>
  Claim C3, as the handler behaves. For a player id that has no row (and gets none from
  another session before the handler's \<^verbatim>\<open>INSERT\<close>), \<^verbatim>\<open>get_player\<close> inserts and commits
  the zero-valued row, and then fails on \<^verbatim>\<open>result[0]\<close>: the row that its
  \<^verbatim>\<open>RealDictCursor\<close> returned has no key 0. The caller gets the internal error 500
  with the text of the \<^verbatim>\<open>KeyError\<close>, not the record.
\<close>

theorem get_player_unseen_raises:
  assumes "fetch_player pid db = None" and "fetch_player pid (env db) = None"
  shows "get_player now env pid db =
           (Inl (HTTPException 500 (StrOf (KeyError 0))),
            env db @ [\<lparr>player_row.player_id = pid, total_money = 0, total_clicks = 0,
                        best_streak = 0, owned_power_ups = Some [], achievements = Some [],
                        created_at = Some now, updated_at = Some now\<rparr>])"
  unfolding get_player_def get_player_on_created [where env = env, OF assms]
  by (simp add: PlayerResponse_of_get_db_connection except_Exception_def)

lemma get_player_found_aux:
  assumes "fetch_player pid db = Some r"
  shows "fst (get_player now env pid db) = Inl (HTTPException 500 (StrOf (KeyError 0)))"
  unfolding get_player_def get_player_on_found [OF assms]
  by (simp add: PlayerResponse_of_get_db_connection except_Exception_def)

text \<open>
  Claim C10, as the handler behaves. For a player whose row exists (whatever its arrays
  hold, NULL or not), \<^verbatim>\<open>get_player\<close> fails on \<^verbatim>\<open>result[0]\<close> before it reaches
  \<^verbatim>\<open>result[4] or []\<close>: the caller gets the internal error 500 and no lists.
\<close>

theorem get_player_found_raises:
  assumes "fetch_player pid db = Some r"
  shows "get_player now env pid db = (Inl (HTTPException 500 (StrOf (KeyError 0))), db)"
  unfolding get_player_def get_player_on_found [OF assms]
  by (simp add: PlayerResponse_of_get_db_connection except_Exception_def)

text \<open>
  Claim C4, as the handlers behave. \<^verbatim>\<open>save_player\<close> acknowledges and stores the row; the
  \<^verbatim>\<open>get_player\<close> that follows finds the row and fails on \<^verbatim>\<open>result[0]\<close>: the caller
  gets the internal error 500, not the saved values.
\<close>

theorem save_then_get_raises:
  "fst (save_player now pid data db) = Inr \<lparr>success = True, message = ''Data saved successfully''\<rparr>
   \<and> fst (get_player now' env pid (snd (save_player now pid data db))) =
       Inl (HTTPException 500 (StrOf (KeyError 0)))"
proof -
  obtain r where r: "fetch_player pid (upsert now pid data db) = Some r"
    using fetch_player_upsert [of pid now data db] by auto
  then have "fetch_player pid (snd (save_player now pid data db)) = Some r"
    by (simp add: save_player_def)
  then have "fst (get_player now' env pid (snd (save_player now pid data db))) =
       Inl (HTTPException 500 (StrOf (KeyError 0)))"
    using get_player_found_aux by simp
  then show ?thesis
    by (simp add: save_player_def except_Exception_def)
qed

subsection \<open>\<^verbatim>\<open>get_player\<close> on a connection with the driver's default cursor\<close>

text \<open>
  The rest of each handler is as the specification describes it: on a connection whose
  rows are tuples, \<^verbatim>\<open>get_player\<close> returns the zero-valued record of an unseen player and
  returns it again, returns what \<^verbatim>\<open>save_player\<close> has stored, and returns an empty list
  for an array that is NULL.
\<close>

lemma get_player_on_tuple_found:
  assumes "cursor_factory conn = TupleCursor" and "fetch_player pid db = Some r"
  shows "get_player_on conn now env pid db = (Inr (response_of r), db)"
  unfolding get_player_on_found [OF assms(2)]
  by (simp add: PlayerResponse_of_tuple [OF assms(1)] except_Exception_def)

lemma get_player_on_tuple_created:
  assumes "cursor_factory conn = TupleCursor"
    and "fetch_player pid db = None" and "fetch_player pid (env db) = None"
  shows "get_player_on conn now env pid db =
           (Inr \<lparr>PlayerResponse.player_id = pid, total_money = 0, total_clicks = 0,
                  best_streak = 0, owned_power_ups = [], achievements = []\<rparr>,
            env db @ [\<lparr>player_row.player_id = pid, total_money = 0, total_clicks = 0,
                        best_streak = 0, owned_power_ups = Some [], achievements = Some [],
                        created_at = Some now, updated_at = Some now\<rparr>])"
  unfolding get_player_on_created [where env = env, OF assms(2,3)]
  by (simp add: PlayerResponse_of_tuple [OF assms(1)] except_Exception_def response_of_def
      or_empty_def)

lemma get_player_on_tuple_unseen:
  assumes "cursor_factory conn = TupleCursor"
    and "fetch_player pid db = None" and "fetch_player pid (env db) = None"
  shows "\<exists>db'. get_player_on conn now env pid db =
            (Inr \<lparr>PlayerResponse.player_id = pid, total_money = 0, total_clicks = 0,
                   best_streak = 0, owned_power_ups = [], achievements = []\<rparr>, db')
          \<and> (\<forall>now' env'. get_player_on conn now' env' pid db' =
                (Inr \<lparr>PlayerResponse.player_id = pid, total_money = 0, total_clicks = 0,
                       best_streak = 0, owned_power_ups = [], achievements = []\<rparr>, db'))"
proof -
  let ?row = "\<lparr>player_row.player_id = pid, total_money = 0, total_clicks = 0,
                best_streak = 0, owned_power_ups = Some [], achievements = Some [],
                created_at = Some now, updated_at = Some now\<rparr>"
  have found: "fetch_player pid (env db @ [?row]) = Some ?row"
    using assms(3) by (simp add: fetch_player_append)
  have again: "get_player_on conn now' env' pid (env db @ [?row]) =
      (Inr \<lparr>PlayerResponse.player_id = pid, total_money = 0, total_clicks = 0,
             best_streak = 0, owned_power_ups = [], achievements = []\<rparr>, env db @ [?row])"
    for now' env'
    using get_player_on_tuple_found [OF assms(1) found] by (simp add: response_of_def or_empty_def)
  show ?thesis
    using get_player_on_tuple_created [where env = env and now = now, OF assms] again by blast
qed

lemma save_then_get_on_tuple:
  assumes "cursor_factory conn = TupleCursor"
  shows "fst (get_player_on conn now' env pid (snd (save_player now pid data db))) =
       Inr \<lparr>PlayerResponse.player_id = pid,
            total_money = PlayerData.total_money data,
            total_clicks = PlayerData.total_clicks data,
            best_streak = PlayerData.best_streak data,
            owned_power_ups = PlayerData.owned_power_ups data,
            achievements = PlayerData.achievements data\<rparr>"
proof -
  obtain r where r: "fetch_player pid (upsert now pid data db) = Some r"
    using fetch_player_upsert [of pid now data db] by auto
  have "response_of r = \<lparr>PlayerResponse.player_id = pid,
            total_money = PlayerData.total_money data,
            total_clicks = PlayerData.total_clicks data,
            best_streak = PlayerData.best_streak data,
            owned_power_ups = PlayerData.owned_power_ups data,
            achievements = PlayerData.achievements data\<rparr>"
    using fetch_player_upsert [of pid now data db] r by simp
  then show ?thesis
    using get_player_on_tuple_found [OF assms r] by (simp add: save_player_def)
qed

lemma get_player_on_tuple_arrays:
  assumes "cursor_factory conn = TupleCursor" and "fetch_player pid db = Some r"
  shows "\<exists>resp. get_player_on conn now env pid db = (Inr resp, db)
         \<and> PlayerResponse.owned_power_ups resp =
             (case player_row.owned_power_ups r of None \<Rightarrow> [] | Some xs \<Rightarrow> xs)
         \<and> PlayerResponse.achievements resp =
             (case player_row.achievements r of None \<Rightarrow> [] | Some xs \<Rightarrow> xs)"
  by (auto simp: get_player_on_tuple_found [OF assms] response_of_def or_empty_def
      split: option.splits)

subsection \<open>\<^verbatim>\<open>reset_player\<close>\<close>

lemma reset_rows:
  "CHR 0x00 \<notin> set pid \<Longrightarrow>
   snd (reset_player now pid db) =
     map (\<lambda>r. if player_row.player_id r = pid then reset_row now r else r) db"
  by (simp add: reset_player_def adapt_def)

lemma reset_row_fields:
  "player_row.player_id (reset_row now r) = player_row.player_id r"
  "player_row.created_at (reset_row now r) = player_row.created_at r"
  "player_row.total_money (reset_row now r) = 0"
  "player_row.total_clicks (reset_row now r) = 0"
  "player_row.best_streak (reset_row now r) = 0"
  "player_row.owned_power_ups (reset_row now r) = Some []"
  "player_row.achievements (reset_row now r) = Some []"
  "player_row.updated_at (reset_row now r) = Some now"
  by (simp_all add: reset_row_def)

lemma reset_player_accepted:
  assumes "CHR 0x00 \<notin> set pid"
  shows "fst (reset_player now pid db) =
     Inr \<lparr>success = True, message = ''Player data reset successfully''\<rparr>
   \<and> map player_row.player_id (snd (reset_player now pid db)) = map player_row.player_id db
   \<and> map player_row.created_at (snd (reset_player now pid db)) = map player_row.created_at db
   \<and> (\<forall>r \<in> set (snd (reset_player now pid db)).
         player_row.player_id r = pid \<longrightarrow>
           player_row.total_money r = 0 \<and> player_row.total_clicks r = 0
           \<and> player_row.best_streak r = 0 \<and> player_row.owned_power_ups r = Some []
           \<and> player_row.achievements r = Some [])
   \<and> (\<forall>i < length db.
         player_row.player_id (db ! i) \<noteq> pid \<longrightarrow> snd (reset_player now pid db) ! i = db ! i)
   \<and> (fetch_player pid db = None \<longrightarrow> snd (reset_player now pid db) = db)"
proof (intro conjI)
  note rows = reset_rows [OF assms]
  show "fst (reset_player now pid db) =
      Inr \<lparr>success = True, message = ''Player data reset successfully''\<rparr>"
    using assms by (simp add: reset_player_def adapt_def except_Exception_def)
  show "map player_row.player_id (snd (reset_player now pid db)) = map player_row.player_id db"
    unfolding rows by (induction db) (simp_all add: reset_row_fields)
  show "map player_row.created_at (snd (reset_player now pid db)) = map player_row.created_at db"
    unfolding rows by (induction db) (simp_all add: reset_row_fields)
  show "\<forall>r \<in> set (snd (reset_player now pid db)).
         player_row.player_id r = pid \<longrightarrow>
           player_row.total_money r = 0 \<and> player_row.total_clicks r = 0
           \<and> player_row.best_streak r = 0 \<and> player_row.owned_power_ups r = Some []
           \<and> player_row.achievements r = Some []"
    unfolding rows by (induction db) (simp_all add: reset_row_fields)
  show "\<forall>i < length db.
         player_row.player_id (db ! i) \<noteq> pid \<longrightarrow> snd (reset_player now pid db) ! i = db ! i"
    unfolding rows by simp
  show "fetch_player pid db = None \<longrightarrow> snd (reset_player now pid db) = db"
    unfolding rows fetch_player_None by (induction db) simp_all
qed

lemma reset_player_refused:
  assumes "CHR 0x00 \<in> set pid"
  shows "reset_player now pid db = (Inl (HTTPException 500 (StrOf ValueError)), db)"
  using assms by (simp add: reset_player_def adapt_def except_Exception_def)

text \<open>
  Claim C9, as the handler behaves. For a player id that the driver accepts (one with
  no NUL character), \<^verbatim>\<open>reset_player\<close> reports success; it keeps every row, its key and
  its \<^verbatim>\<open>created_at\<close>; the rows of the player have the three counters 0 and both arrays
  empty; the rows of other players are untouched; and for a player without a row the
  table is unchanged. For a player id that the driver refuses, the handler changes
  nothing and answers the internal error 500.
\<close>

theorem reset_player_effect:
  "(CHR 0x00 \<notin> set pid \<longrightarrow>
      fst (reset_player now pid db) =
        Inr \<lparr>success = True, message = ''Player data reset successfully''\<rparr>
      \<and> map player_row.player_id (snd (reset_player now pid db)) = map player_row.player_id db
      \<and> map player_row.created_at (snd (reset_player now pid db)) = map player_row.created_at db
      \<and> (\<forall>r \<in> set (snd (reset_player now pid db)).
            player_row.player_id r = pid \<longrightarrow>
              player_row.total_money r = 0 \<and> player_row.total_clicks r = 0
              \<and> player_row.best_streak r = 0 \<and> player_row.owned_power_ups r = Some []
              \<and> player_row.achievements r = Some [])
      \<and> (\<forall>i < length db.
            player_row.player_id (db ! i) \<noteq> pid \<longrightarrow> snd (reset_player now pid db) ! i = db ! i)
      \<and> (fetch_player pid db = None \<longrightarrow> snd (reset_player now pid db) = db))
   \<and> (CHR 0x00 \<in> set pid \<longrightarrow>
      reset_player now pid db = (Inl (HTTPException 500 (StrOf ValueError)), db))"
proof (rule conjI)
  show "CHR 0x00 \<in> set pid \<longrightarrow>
      reset_player now pid db = (Inl (HTTPException 500 (StrOf ValueError)), db)"
    by (rule impI) (rule reset_player_refused)
qed (rule impI, rule reset_player_accepted)

text \<open>
  Claim C9 (amended) on a table with the one player \<^verbatim>\<open>carol\<close>: her reset, the reset of
  the unseen \<^verbatim>\<open>dave\<close>, and the reset of an id with a NUL character.
\<close>

theorem reset_player_effect_witness:
  "CHR 0x00 \<notin> set ''carol'' \<and> CHR 0x00 \<notin> set ''dave'' \<and> CHR 0x00 \<in> set nul_id
   \<and> fetch_player ''carol'' [carol_row] = Some carol_row
   \<and> snd (reset_player 9 ''carol'' [carol_row]) =
       [\<lparr>player_row.player_id = ''carol'', total_money = 0, total_clicks = 0,
         best_streak = 0, owned_power_ups = Some [], achievements = Some [],
         created_at = Some 2, updated_at = Some 9\<rparr>]
   \<and> fetch_player ''dave'' [carol_row] = None
   \<and> snd (reset_player 9 ''dave'' [carol_row]) = [carol_row]
   \<and> fst (reset_player 9 ''dave'' [carol_row]) =
       Inr \<lparr>success = True, message = ''Player data reset successfully''\<rparr>
   \<and> reset_player 9 nul_id [carol_row] = (Inl (HTTPException 500 (StrOf ValueError)), [carol_row])"
proof -
  have c: "CHR 0x00 \<notin> set ''carol''" and d: "CHR 0x00 \<notin> set ''dave''"
    and n: "CHR 0x00 \<in> set nul_id"
    by (simp_all add: nul_id_def)
  have seen: "fetch_player ''carol'' [carol_row] = Some carol_row"
    by (simp add: fetch_player_def carol_row_def)
  have unseen: "fetch_player ''dave'' [carol_row] = None"
    by (simp add: fetch_player_def carol_row_def)
  note dave = reset_player_effect [of "''dave''" 9 "[carol_row]", THEN conjunct1, rule_format, OF d]
  note nul = reset_player_effect [of nul_id 9 "[carol_row]", THEN conjunct2, rule_format, OF n]
  have ack: "fst (reset_player 9 ''dave'' [carol_row]) =
       Inr \<lparr>success = True, message = ''Player data reset successfully''\<rparr>"
    using dave by (elim conjE)
  have "fetch_player ''dave'' [carol_row] = None \<longrightarrow>
          snd (reset_player 9 ''dave'' [carol_row]) = [carol_row]"
    using dave by (elim conjE)
  with unseen have same: "snd (reset_player 9 ''dave'' [carol_row]) = [carol_row]"
    by (rule rev_mp)
  have zero: "snd (reset_player 9 ''carol'' [carol_row]) =
       [\<lparr>player_row.player_id = ''carol'', total_money = 0, total_clicks = 0,
         best_streak = 0, owned_power_ups = Some [], achievements = Some [],
         created_at = Some 2, updated_at = Some 9\<rparr>]"
    by (simp add: reset_player_def adapt_def reset_row_def carol_row_def)
  show ?thesis
    using c d n seen zero unseen same ack nul by (intro conjI)
qed

text \<open>
  Claim C9 as stated fails: the id \<^verbatim>\<open>a\<close>, NUL, \<^verbatim>\<open>b\<close> has no row, and its reset does
  not report success.
\<close>

theorem reset_player_effect_counterexample:
  "fetch_player nul_id [carol_row] = None
   \<and> reset_player 9 nul_id [carol_row] = (Inl (HTTPException 500 (StrOf ValueError)), [carol_row])"
  by (simp add: fetch_player_def carol_row_def nul_id_def reset_player_def adapt_def
      except_Exception_def)

subsection \<open>The racing insert\<close>

text \<open>
  Claim C2, as the handler behaves. When the row is absent at the \<^verbatim>\<open>SELECT\<close> and present
  at the \<^verbatim>\<open>INSERT\<close>, the uniqueness error is caught by the handler's only
  \<^verbatim>\<open>except\<close> clause: the answer is the internal error 500 with the driver's message,
  nothing is written, and the existing row is not fetched.
\<close>

theorem get_player_insert_conflict:
  assumes "fetch_player pid db = None" and "fetch_player pid (env db) \<noteq> None"
  shows "get_player now env pid db = (Inl (HTTPException 500 (StrOf UniqueViolation)), env db)"
  using assms
  by (simp add: get_player_def get_player_on_def insert_returning_def except_Exception_def)

lemma concurrent_get_player_empty:
  "concurrent_get_player 1 ''alice'' [] =
     [\<lparr>player_row.player_id = ''alice'', total_money = 0, total_clicks = 0,
       best_streak = 0, owned_power_ups = Some [], achievements = Some [],
       created_at = Some 1, updated_at = Some 1\<rparr>]"
  by (simp add: concurrent_get_player_def get_player_def get_player_on_def fetch_player_def
      insert_returning_def column_default_def Let_def)

text \<open>
  Claim C2 (amended) when another session creates \<^verbatim>\<open>alice\<close> in between.
\<close>

theorem get_player_insert_conflict_witness:
  "fetch_player ''alice'' [] = None
   \<and> fetch_player ''alice'' (concurrent_get_player 1 ''alice'' []) \<noteq> None
   \<and> get_player 2 (concurrent_get_player 1 ''alice'') ''alice'' [] =
       (Inl (HTTPException 500 (StrOf UniqueViolation)), concurrent_get_player 1 ''alice'' [])"
proof -
  have a: "fetch_player ''alice'' [] = None" by (simp add: fetch_player_def)
  have b: "fetch_player ''alice'' (concurrent_get_player 1 ''alice'' []) \<noteq> None"
    by (simp add: concurrent_get_player_empty fetch_player_def)
  show ?thesis
    using a b get_player_insert_conflict
      [where pid = "''alice''" and db = "[]" and env = "concurrent_get_player 1 ''alice''"
         and now = 2, OF a b]
    by blast
qed

text \<open>
  Claim C2 as stated fails: \<^verbatim>\<open>alice\<close> is unseen at the \<^verbatim>\<open>SELECT\<close>, another session
  creates her before the \<^verbatim>\<open>INSERT\<close>, and the handler answers with an error.
\<close>

theorem get_player_insert_conflict_counterexample:
  "fetch_player ''alice'' [] = None
   \<and> fetch_player ''alice'' (concurrent_get_player 1 ''alice'' []) \<noteq> None
   \<and> fst (get_player 2 (concurrent_get_player 1 ''alice'') ''alice'' []) =
       Inl (HTTPException 500 (StrOf UniqueViolation))"
  by (simp add: concurrent_get_player_empty get_player_def get_player_on_def fetch_player_def
      insert_returning_def except_Exception_def)

section \<open>Properties of the aggregate queries\<close>

lemma set_order_by: "set (order_by tie rows) = set rows"
  by (simp add: order_by_def)

lemma length_order_by: "length (order_by tie rows) = length rows"
  by (simp add: order_by_def)


lemma distinct_order_by: "distinct (order_by tie rows) = distinct rows"
  by (simp add: order_by_def)

lemma sorted_order_by: "sorted (map (sort_keys tie) (order_by tie rows))"
  by (simp add: order_by_def)

lemma sort_keys_le:
  "sort_keys tie a \<le> sort_keys tie b \<Longrightarrow>
     player_row.total_money a > player_row.total_money b
     \<or> (player_row.total_money a = player_row.total_money b
        \<and> player_row.total_clicks a \<ge> player_row.total_clicks b)"
  by (auto simp: sort_keys_def less_eq_prod_def)

lemma order_by_money_clicks:
  "sorted_wrt (\<lambda>a b. player_row.total_money a > player_row.total_money b
                 \<or> (player_row.total_money a = player_row.total_money b
                    \<and> player_row.total_clicks a \<ge> player_row.total_clicks b))
     (order_by tie rows)"
proof -
  have "sorted_wrt (\<lambda>a b. sort_keys tie a \<le> sort_keys tie b) (order_by tie rows)"
    using sorted_order_by [of tie rows] by (simp add: sorted_map)
  then show ?thesis
    by (rule sorted_wrt_mono_rel [rotated]) (use sort_keys_le in blast)
qed

lemma earners_positive: "r \<in> set (earners db) \<Longrightarrow> player_row.total_money r > 0"
  by (simp add: earners_def)

lemma leaderboard_query_ok:
  "0 \<le> limit \<Longrightarrow> limit \<le> 9223372036854775807 \<Longrightarrow>
   leaderboard_query now tie limit db =
     Inr (map (select_leaderboard_columns now) (take (nat limit) (order_by tie (earners db))))"
  by (simp add: leaderboard_query_def)

lemma cursor_factory_tuple_connection [simp]:
  "cursor_factory tuple_connection = TupleCursor"
  by (simp add: tuple_connection_def)

lemma leaderboard_append_tuple:
  "leaderboard_append tuple_connection p = Inr (leaderboard_entry_of p)"
  by (cases p)
    (simp add: leaderboard_append_def leaderboard_entry_of_def getitem_tuple and_then_Inr)

lemma for_each_tuple:
  "for_each (leaderboard_append tuple_connection) ps = Inr (map leaderboard_entry_of ps)"
  by (induction ps) (simp_all add: leaderboard_append_tuple and_then_Inr)

lemma total_of_tuple:
  "total_of tuple_connection (count_query db) = Inr (int (length (earners db)))"
  by (simp add: total_of_def count_query_def getitem_tuple)

lemma leaderboard_append_get_db_connection:
  "leaderboard_append get_db_connection p = Inl (KeyError 0)"
  by (cases p) (simp add: leaderboard_append_def getitem_get_db_connection and_then_Inl)

lemma for_each_get_db_connection:
  "for_each (leaderboard_append get_db_connection) ps =
     (if ps = [] then Inr [] else Inl (KeyError 0))"
  by (cases ps) (simp_all add: leaderboard_append_get_db_connection and_then_Inl)

lemma total_of_get_db_connection:
  "total_of get_db_connection (count_query db) = Inl (KeyError 0)"
  by (simp add: total_of_def count_query_def getitem_get_db_connection)

lemma get_leaderboard_Inr:
  assumes "get_leaderboard_on tuple_connection now clock tie limit db = Inr resp"
  shows "0 \<le> limit \<and> limit \<le> 9223372036854775807
       \<and> leaderboard resp =
           map leaderboard_entry_of
             (List.enumerate 1 (map (select_leaderboard_columns now)
                (take (nat limit) (order_by tie (earners db)))))
       \<and> leaderboard_response.total_players resp = int (length (earners db))
       \<and> leaderboard_response.last_updated resp = clock"
  using assms
  by (auto simp: get_leaderboard_on_def leaderboard_query_def except_Exception_def
      and_then_Inr and_then_Inl for_each_tuple total_of_tuple split: if_splits)

lemma get_leaderboard_ok:
  assumes "0 \<le> limit" and "limit \<le> 9223372036854775807"
  shows "get_leaderboard_on tuple_connection now clock tie limit db =
     Inr \<lparr>leaderboard =
            map leaderboard_entry_of
             (List.enumerate 1 (map (select_leaderboard_columns now)
                (take (nat limit) (order_by tie (earners db))))),
          total_players = int (length (earners db)),
          last_updated = clock\<rparr>"
  using assms
  by (simp add: get_leaderboard_on_def leaderboard_query_def except_Exception_def
      and_then_Inr for_each_tuple total_of_tuple)

text \<open>The i-th dictionary of the page is the i-th row of the ordered population.\<close>

lemma leaderboard_nth:
  assumes "i < length rows"
  shows "map leaderboard_entry_of
           (List.enumerate 1 (map (select_leaderboard_columns now) rows)) ! i =
         leaderboard_entry_of (Suc i, select_leaderboard_columns now (rows ! i))"
  using assms by (simp add: nth_enumerate_eq)

lemma entry_fields:
  "leaderboard_entry.rank (leaderboard_entry_of (k, select_leaderboard_columns now r)) = int k"
  "leaderboard_entry.player_id (leaderboard_entry_of (k, select_leaderboard_columns now r)) =
     player_row.player_id r"
  "leaderboard_entry.total_money (leaderboard_entry_of (k, select_leaderboard_columns now r)) =
     player_row.total_money r"
  "leaderboard_entry.total_clicks (leaderboard_entry_of (k, select_leaderboard_columns now r)) =
     player_row.total_clicks r"
  by (simp_all add: leaderboard_entry_of_def select_leaderboard_columns_def)

lemma page_entries:
  assumes "get_leaderboard_on tuple_connection now clock tie limit db = Inr resp"
  shows "length (leaderboard resp) = min (nat limit) (length (earners db))"
    and "i < length (leaderboard resp) \<Longrightarrow>
           leaderboard resp ! i =
             leaderboard_entry_of
               (Suc i, select_leaderboard_columns now (order_by tie (earners db) ! i))"
proof -
  let ?rows = "take (nat limit) (order_by tie (earners db))"
  have lb: "leaderboard resp =
      map leaderboard_entry_of (List.enumerate 1 (map (select_leaderboard_columns now) ?rows))"
    using get_leaderboard_Inr [OF assms] by simp
  show len: "length (leaderboard resp) = min (nat limit) (length (earners db))"
    by (simp add: lb length_order_by min.commute)
  assume "i < length (leaderboard resp)"
  then have i: "i < length ?rows" by (simp add: lb)
  then have "leaderboard resp ! i =
      leaderboard_entry_of (Suc i, select_leaderboard_columns now (?rows ! i))"
    unfolding lb by (rule leaderboard_nth)
  moreover have "?rows ! i = order_by tie (earners db) ! i"
    using i by simp
  ultimately show "leaderboard resp ! i =
             leaderboard_entry_of
               (Suc i, select_leaderboard_columns now (order_by tie (earners db) ! i))"
    by simp
qed

text \<open>
  On a connection with the driver's default cursor the leaderboard is as the
  specification describes it: for a limit that the engine accepts the handler returns a
  page, and every page it returns has only players with positive money, is ordered by
  money descending then clicks descending, numbers its rows 1, 2, ... in that order, and
  has at most \<open>limit\<close> rows, however the executor orders tied rows.
\<close>

lemma get_leaderboard_on_tuple_properties:
  "(0 \<le> limit \<and> limit \<le> 9223372036854775807 \<longrightarrow>
      (\<exists>resp. get_leaderboard_on tuple_connection now clock tie limit db = Inr resp))
   \<and> (\<forall>resp. get_leaderboard_on tuple_connection now clock tie limit db = Inr resp \<longrightarrow>
        (\<forall>e \<in> set (leaderboard resp). leaderboard_entry.total_money e > 0)
        \<and> sorted_wrt
            (\<lambda>a b. leaderboard_entry.total_money a > leaderboard_entry.total_money b
                \<or> (leaderboard_entry.total_money a = leaderboard_entry.total_money b
                   \<and> leaderboard_entry.total_clicks a \<ge> leaderboard_entry.total_clicks b))
            (leaderboard resp)
        \<and> (\<forall>i < length (leaderboard resp).
              leaderboard_entry.rank (leaderboard resp ! i) = int i + 1)
        \<and> int (length (leaderboard resp)) \<le> limit)"
proof (rule conjI)
  show "0 \<le> limit \<and> limit \<le> 9223372036854775807 \<longrightarrow>
      (\<exists>resp. get_leaderboard_on tuple_connection now clock tie limit db = Inr resp)"
    using get_leaderboard_ok [of limit now clock tie db] by blast
next
  have page: "(\<forall>e \<in> set (leaderboard resp). leaderboard_entry.total_money e > 0)
        \<and> sorted_wrt
            (\<lambda>a b. leaderboard_entry.total_money a > leaderboard_entry.total_money b
                \<or> (leaderboard_entry.total_money a = leaderboard_entry.total_money b
                   \<and> leaderboard_entry.total_clicks a \<ge> leaderboard_entry.total_clicks b))
            (leaderboard resp)
        \<and> (\<forall>i < length (leaderboard resp).
              leaderboard_entry.rank (leaderboard resp ! i) = int i + 1)
        \<and> int (length (leaderboard resp)) \<le> limit"
    if r: "get_leaderboard_on tuple_connection now clock tie limit db = Inr resp" for resp
  proof (intro conjI)
  let ?L = "order_by tie (earners db)"
  note len = page_entries(1) [OF r]
  note nth = page_entries(2) [OF r]
  have in_L: "?L ! i \<in> set (earners db)" if "i < length (leaderboard resp)" for i
  proof -
    have "i < length ?L" using that len by (simp add: length_order_by)
    then have "?L ! i \<in> set ?L" by (rule nth_mem)
    then show ?thesis by (simp add: set_order_by)
  qed
  show "\<forall>e \<in> set (leaderboard resp). leaderboard_entry.total_money e > 0"
  proof
    fix e assume "e \<in> set (leaderboard resp)"
    then obtain i where i: "i < length (leaderboard resp)" and e: "e = leaderboard resp ! i"
      by (auto simp: in_set_conv_nth)
    have "leaderboard_entry.total_money e = player_row.total_money (?L ! i)"
      unfolding e nth [OF i] by (rule entry_fields)
    then show "leaderboard_entry.total_money e > 0"
      using earners_positive [OF in_L [OF i]] by simp
  qed
  show "sorted_wrt
            (\<lambda>a b. leaderboard_entry.total_money a > leaderboard_entry.total_money b
                \<or> (leaderboard_entry.total_money a = leaderboard_entry.total_money b
                   \<and> leaderboard_entry.total_clicks a \<ge> leaderboard_entry.total_clicks b))
            (leaderboard resp)"
    unfolding sorted_wrt_iff_nth_less
  proof (intro allI impI)
    fix i j assume ij: "i < j" and j: "j < length (leaderboard resp)"
    then have i: "i < length (leaderboard resp)" by simp
    have jL: "j < length ?L" using j len by (simp add: length_order_by)
    have "player_row.total_money (?L ! i) > player_row.total_money (?L ! j)
          \<or> (player_row.total_money (?L ! i) = player_row.total_money (?L ! j)
             \<and> player_row.total_clicks (?L ! i) \<ge> player_row.total_clicks (?L ! j))"
      using order_by_money_clicks [of tie "earners db"] ij jL
      unfolding sorted_wrt_iff_nth_less by blast
    then show "leaderboard_entry.total_money (leaderboard resp ! i)
                 > leaderboard_entry.total_money (leaderboard resp ! j)
          \<or> (leaderboard_entry.total_money (leaderboard resp ! i)
                 = leaderboard_entry.total_money (leaderboard resp ! j)
             \<and> leaderboard_entry.total_clicks (leaderboard resp ! i)
                 \<ge> leaderboard_entry.total_clicks (leaderboard resp ! j))"
      unfolding nth [OF i] nth [OF j] entry_fields .
  qed
  show "\<forall>i < length (leaderboard resp).
              leaderboard_entry.rank (leaderboard resp ! i) = int i + 1"
  proof (intro allI impI)
    fix i assume i: "i < length (leaderboard resp)"
    show "leaderboard_entry.rank (leaderboard resp ! i) = int i + 1"
      unfolding nth [OF i] entry_fields by simp
  qed
  show "int (length (leaderboard resp)) \<le> limit"
  proof -
    have "0 \<le> limit" using get_leaderboard_Inr [OF r] by blast
    moreover have "length (leaderboard resp) \<le> nat limit" using len by simp
    ultimately show ?thesis by linarith
  qed
  qed
  show "\<forall>resp. get_leaderboard_on tuple_connection now clock tie limit db = Inr resp \<longrightarrow>
        (\<forall>e \<in> set (leaderboard resp). leaderboard_entry.total_money e > 0)
        \<and> sorted_wrt
            (\<lambda>a b. leaderboard_entry.total_money a > leaderboard_entry.total_money b
                \<or> (leaderboard_entry.total_money a = leaderboard_entry.total_money b
                   \<and> leaderboard_entry.total_clicks a \<ge> leaderboard_entry.total_clicks b))
            (leaderboard resp)
        \<and> (\<forall>i < length (leaderboard resp).
              leaderboard_entry.rank (leaderboard resp ! i) = int i + 1)
        \<and> int (length (leaderboard resp)) \<le> limit"
    using page by blast
qed

lemma stats_query_empty:
  assumes "earners db = []"
  shows "stats_query numeric_div now db =
     \<lparr>stats_result.total_players = Some 0, total_money_earned = None,
      total_clicks = None, highest_earnings = None, most_clicks = None,
      best_streak_global = None, avg_money = None, avg_clicks = None,
      active_players = Some 0, daily_active_players = Some 0\<rparr>"
  using assms by (simp add: stats_query_def sql_sum_def sql_avg_def)

text \<open>
  On a connection with the driver's default cursor, the statistics of a table with no
  player of positive money are all 0.
\<close>

lemma get_global_stats_on_tuple_empty:
  assumes "earners db = []"
  shows "get_global_stats_on tuple_connection numeric_div now clock db =
     Inr \<lparr>global_stats =
            \<lparr>stats.total_players = 0, total_money_earned = 0, total_clicks = 0,
             highest_earnings = 0, most_clicks = 0, best_streak_global = 0,
             average_money = 0, average_clicks = 0, active_players = 0,
             daily_active_players = 0\<rparr>,
          last_updated = clock\<rparr>"
  by (simp add: get_global_stats_on_def stats_query_empty [OF assms] except_Exception_def
      getitem_tuple and_then_Inr or_zero_def int_or_zero_def)

lemma snd_enumerate_mem:
  assumes "p \<in> set (List.enumerate n xs)"
  shows "snd p \<in> set xs"
proof -
  have "snd p \<in> snd ` set (List.enumerate n xs)"
    using assms by (rule imageI)
  also have "snd ` set (List.enumerate n xs) = set (map snd (List.enumerate n xs))"
    by (simp only: set_map)
  also have "\<dots> = set xs"
    by (simp only: map_snd_enumerate)
  finally show ?thesis .
qed

lemma rank_query_None:
  assumes "\<forall>r \<in> set db. player_row.player_id r = pid \<longrightarrow> player_row.total_money r \<le> 0"
  shows "rank_query tie pid db = None"
proof -
  have "\<forall>p \<in> set (List.enumerate 1 (order_by tie (earners db))).
          player_row.player_id (snd p) \<noteq> pid"
  proof
    fix p assume "p \<in> set (List.enumerate 1 (order_by tie (earners db)))"
    then have "snd p \<in> set (order_by tie (earners db))"
      by (rule snd_enumerate_mem)
    then have "snd p \<in> set db" and "player_row.total_money (snd p) > 0"
      by (simp_all add: set_order_by earners_def)
    then show "player_row.player_id (snd p) \<noteq> pid"
      using assms by force
  qed
  then have "find (\<lambda>(i, r). player_row.player_id r = pid)
               (List.enumerate 1 (order_by tie (earners db))) = None"
    by (auto simp: find_None_iff)
  then show ?thesis by (simp add: rank_query_def)
qed

text \<open>
  Claim C1, as the handler behaves. For a player with no row of positive money the
  handler raises the 404 inside its \<^verbatim>\<open>try\<close> block, where its own
  \<^verbatim>\<open>except Exception\<close> clause catches it: the caller gets the internal error 500, whose
  detail is the text of the 404.
\<close>

theorem get_player_rank_not_found:
  assumes "\<forall>r \<in> set db. player_row.player_id r = pid \<longrightarrow> player_row.total_money r \<le> 0"
  shows "get_player_rank tie pid db =
     Inl (HTTPException 500 (StrOf (HTTPException 404 (Msg ''Player not found or no earnings''))))"
  by (simp add: get_player_rank_def get_player_rank_on_def rank_query_None [OF assms]
      except_Exception_def)

lemma distinct_ids_order_by:
  assumes "distinct (map player_row.player_id db)"
  shows "distinct (map player_row.player_id (order_by tie (earners db)))"
proof -
  have "distinct (map player_row.player_id (earners db))"
    using assms unfolding earners_def by (rule distinct_map_filter)
  then have "distinct (earners db)" and "inj_on player_row.player_id (set (earners db))"
    by (simp_all add: distinct_map)
  then show ?thesis
    by (simp add: distinct_map distinct_order_by set_order_by)
qed

lemma find_enumerate_unique:
  assumes "i < length xs" and "\<forall>j < length xs. j \<noteq> i \<longrightarrow> \<not> P (xs ! j)" and "P (xs ! i)"
  shows "find (\<lambda>(k, x). P x) (List.enumerate n xs) = Some (n + i, xs ! i)"
proof -
  have "\<exists>m < length (List.enumerate n xs).
          (\<lambda>(k, x). P x) (List.enumerate n xs ! m)
          \<and> (n + i, xs ! i) = List.enumerate n xs ! m
          \<and> (\<forall>j < m. \<not> (\<lambda>(k, x). P x) (List.enumerate n xs ! j))"
  proof (intro exI [of _ i] conjI allI impI)
    show "i < length (List.enumerate n xs)" using assms(1) by simp
    show "(\<lambda>(k, x). P x) (List.enumerate n xs ! i)"
      using assms(1,3) by (simp add: nth_enumerate_eq)
    show "(n + i, xs ! i) = List.enumerate n xs ! i"
      using assms(1) by (simp add: nth_enumerate_eq)
    fix j assume "j < i"
    then show "\<not> (\<lambda>(k, x). P x) (List.enumerate n xs ! j)"
      using assms(1,2) by (simp add: nth_enumerate_eq)
  qed
  then show ?thesis by (simp only: find_Some_iff)
qed

lemma rank_query_Some:
  assumes "distinct (map player_row.player_id db)"
    and "i < length (order_by tie (earners db))"
  shows "rank_query tie (player_row.player_id (order_by tie (earners db) ! i)) db =
           Some (int i + 1, player_row.total_money (order_by tie (earners db) ! i))"
proof -
  let ?L = "order_by tie (earners db)"
  have d: "distinct (map player_row.player_id ?L)"
    using assms(1) by (rule distinct_ids_order_by)
  have "\<forall>j < length ?L. j \<noteq> i \<longrightarrow>
          \<not> player_row.player_id (?L ! j) = player_row.player_id (?L ! i)"
  proof (intro allI impI)
    fix j assume j: "j < length ?L" and ne: "j \<noteq> i"
    have "map player_row.player_id ?L ! j \<noteq> map player_row.player_id ?L ! i"
      using d j assms(2) ne by (simp only: nth_eq_iff_index_eq length_map not_False_eq_True)
    then show "\<not> player_row.player_id (?L ! j) = player_row.player_id (?L ! i)"
      using j assms(2) by simp
  qed
  then have "find (\<lambda>(k, x). player_row.player_id x = player_row.player_id (?L ! i))
               (List.enumerate 1 ?L) = Some (1 + i, ?L ! i)"
    using assms(2) by (intro find_enumerate_unique) simp_all
  then show ?thesis
    by (simp add: rank_query_def)
qed

text \<open>The accuracy of the float operations of the percentile.\<close>

lemma ilog2_le:
  assumes "0 < x"
  shows "2 powi ilog2 x \<le> x"
proof -
  obtain p q where pq: "quotient_of x = (p, q)" by (cases "quotient_of x")
  have q: "0 < q" using pq by (rule quotient_of_denom_pos)
  have x: "x = of_int p / of_int q" using pq by (rule quotient_of_div)
  have p: "0 < p"
    using assms q unfolding x by (simp add: zero_less_divide_iff)
  let ?d = "bitlen p - bitlen q"
  have il: "ilog2 x = (if 2 powi ?d \<le> x then ?d else ?d - 1)"
    by (simp add: ilog2_def pq Let_def)
  have low: "(2::rat) powi (?d - 1) \<le> x"
  proof -
    have bp: "(2::int) ^ nat (bitlen p - 1) \<le> p" and bq: "q < 2 ^ nat (bitlen q)"
      using bitlen_bounds [OF p] bitlen_bounds [OF q] by simp_all
    have p1: "1 \<le> bitlen p"
      using p by (simp add: bitlen_alt_def)
    have "(2::rat) powi (bitlen p - 1) = of_int (2 ^ nat (bitlen p - 1))"
      using p1 by (simp add: power_int_nonneg_exp)
    also have "\<dots> \<le> of_int p"
      using bp by (simp only: of_int_le_iff)
    finally have num: "(2::rat) powi (bitlen p - 1) \<le> of_int p" .
    have "(of_int q :: rat) \<le> of_int (2 ^ nat (bitlen q))"
      using bq by (simp only: of_int_le_iff less_imp_le)
    also have "\<dots> = 2 powi bitlen q"
      using bitlen_nonneg [of q] by (simp add: power_int_nonneg_exp)
    finally have den: "(of_int q :: rat) \<le> 2 powi bitlen q" .
    have "(2::rat) powi (?d - 1) = 2 powi ((bitlen p - 1) - bitlen q)"
      by (simp add: algebra_simps)
    also have "\<dots> = 2 powi (bitlen p - 1) / 2 powi bitlen q"
      by (rule power_int_diff) simp
    also have "\<dots> \<le> of_int p / of_int q"
      using num den p q by (intro frac_le) simp_all
    finally show ?thesis unfolding x .
  qed
  show ?thesis
    unfolding il using low by simp
qed

lemma ilog2_less:
  assumes "0 < x" and "x < 2 powi m"
  shows "ilog2 x < m"
proof (rule ccontr)
  assume "\<not> ilog2 x < m"
  then have "m \<le> ilog2 x" by simp
  then have "(2::rat) powi m \<le> 2 powi ilog2 x"
    by (rule power_int_increasing) simp
  with ilog2_le [OF assms(1)] assms(2) show False by simp
qed

lemma round_half_even_near: "\<bar>of_int (round_half_even x) - x\<bar> \<le> 1 / 2"
proof -
  have "of_int \<lfloor>x\<rfloor> \<le> x" and "x < of_int \<lfloor>x\<rfloor> + 1"
    by linarith+
  then show ?thesis
    unfolding round_half_even_def Let_def by (auto simp: abs_le_iff)
qed

lemma fl_error:
  assumes "\<bar>x\<bar> < 2 powi m" and "- 1021 \<le> m"
  shows "\<bar>fl x - x\<bar> \<le> 2 powi (m - 54)"
proof (cases "x = 0")
  case True
  then show ?thesis by (simp add: fl_def)
next
  case False
  let ?e = "max (ilog2 \<bar>x\<bar> - 52) (- 1074)"
  let ?n = "round_half_even (\<bar>x\<bar> / 2 powi ?e)"
  have pos: "(0::rat) < 2 powi ?e" by simp
  have fl: "fl x = sgn x * of_int ?n * 2 powi ?e"
    using False by (simp add: fl_def Let_def)
  have sx: "sgn x * \<bar>x\<bar> = x"
    by (simp add: sgn_mult_abs)
  have "sgn x * (of_int ?n * 2 powi ?e - \<bar>x\<bar>) = sgn x * of_int ?n * 2 powi ?e - sgn x * \<bar>x\<bar>"
    by (simp only: right_diff_distrib mult.assoc)
  then have "fl x - x = sgn x * (of_int ?n * 2 powi ?e - \<bar>x\<bar>)"
    unfolding fl sx by simp
  then have "\<bar>fl x - x\<bar> = \<bar>of_int ?n * 2 powi ?e - \<bar>x\<bar>\<bar>"
    using False by (simp add: abs_mult abs_sgn_eq)
  also have "of_int ?n * 2 powi ?e - \<bar>x\<bar> = (of_int ?n - \<bar>x\<bar> / 2 powi ?e) * 2 powi ?e"
    using pos by (simp add: field_simps)
  also have "\<bar>(of_int ?n - \<bar>x\<bar> / 2 powi ?e) * 2 powi ?e\<bar> =
             \<bar>of_int ?n - \<bar>x\<bar> / 2 powi ?e\<bar> * 2 powi ?e"
    using pos by (simp add: abs_mult)
  also have "\<dots> \<le> 1 / 2 * 2 powi ?e"
    using round_half_even_near [of "\<bar>x\<bar> / 2 powi ?e"] pos
    by (intro mult_right_mono) simp_all
  also have "\<dots> \<le> 1 / 2 * 2 powi (m - 53)"
  proof -
    have "ilog2 \<bar>x\<bar> < m"
      using False assms(1) by (intro ilog2_less) simp_all
    then have "?e \<le> m - 53" using assms(2) by simp
    then have "(2::rat) powi ?e \<le> 2 powi (m - 53)"
      by (rule power_int_increasing) simp
    then show ?thesis by simp
  qed
  also have "\<dots> = 2 powi (m - 54)"
  proof -
    have "(2::rat) powi (m - 53) = 2 powi ((m - 54) + 1)" by (simp add: algebra_simps)
    also have "\<dots> = 2 powi (m - 54) * 2" by (rule power_int_add_1) simp
    finally show ?thesis by simp
  qed
  finally show ?thesis .
qed


lemma percentile_error_arith:
  fixes x q p m v :: rat
  assumes "0 \<le> x" and "x < 1"
    and "\<bar>q - x\<bar> \<le> 1 / 18014398509481984"
  shows "\<bar>q * 100\<bar> < 128"
    and "\<bar>p - q * 100\<bar> \<le> 1 / 140737488355328 \<Longrightarrow> \<bar>m - p\<bar> \<le> 1 / 20 \<Longrightarrow> \<bar>m\<bar> < 128"
    and "\<bar>p - q * 100\<bar> \<le> 1 / 140737488355328 \<Longrightarrow> \<bar>m - p\<bar> \<le> 1 / 20 \<Longrightarrow>
         \<bar>v - m\<bar> \<le> 1 / 140737488355328 \<Longrightarrow> \<bar>v - x * 100\<bar> \<le> 1 / 20 + 1 / 35184372088832"
  using assms by linarith+

lemma percentile_error:
  assumes "0 \<le> a" and "a < b"
  shows "\<bar>fl (of_int (round_half_even (py_mul (py_truediv a b) 100 * 10)) / 10)
          - of_int a / of_int b * 100\<bar> \<le> 1 / 20 + 2 powi (- 45)"
proof -
  define x :: rat where "x = of_int a / of_int b"
  define q where "q = py_truediv a b"
  define p where "p = py_mul q 100"
  define n where "n = round_half_even (p * 10)"
  define m :: rat where "m = of_int n / 10"
  define v where "v = fl m"
  have b: "(0::rat) < of_int b" using assms by simp
  have x0: "0 \<le> x" using assms by (simp add: x_def)
  have x1: "x < 1" using assms b by (simp add: x_def divide_less_eq)
  have "\<bar>x\<bar> < 2 powi 0" using x0 x1 by simp
  then have "\<bar>fl x - x\<bar> \<le> 2 powi (0 - 54)"
    by (rule fl_error) simp
  then have q: "\<bar>q - x\<bar> \<le> 1 / 18014398509481984"
    by (simp add: q_def x_def py_truediv_def power_int_minus_divide)
  have "\<bar>q * 100\<bar> < 128"
    using x0 x1 q by (rule percentile_error_arith(1))
  then have "\<bar>q * 100\<bar> < 2 powi 7"
    by simp
  then have "\<bar>fl (q * 100) - q * 100\<bar> \<le> 2 powi (7 - 54)"
    by (rule fl_error) simp
  then have p: "\<bar>p - q * 100\<bar> \<le> 1 / 140737488355328"
    by (simp add: p_def py_mul_def power_int_minus_divide)
  have "\<bar>of_int n - p * 10\<bar> \<le> 1 / 2"
    unfolding n_def by (rule round_half_even_near)
  then have n: "\<bar>m - p\<bar> \<le> 1 / 20"
    unfolding m_def by linarith
  have "\<bar>m\<bar> < 128"
    using x0 x1 q p n by (rule percentile_error_arith(2))
  then have "\<bar>m\<bar> < 2 powi 7"
    by simp
  then have "\<bar>fl m - m\<bar> \<le> 2 powi (7 - 54)"
    by (rule fl_error) simp
  then have v: "\<bar>v - m\<bar> \<le> 1 / 140737488355328"
    by (simp add: v_def power_int_minus_divide)
  have "\<bar>v - x * 100\<bar> \<le> 1 / 20 + 1 / 35184372088832"
    using x0 x1 q p n v by (rule percentile_error_arith(3))
  then show ?thesis
    by (simp add: v_def m_def n_def p_def q_def x_def power_int_minus_divide)
qed

lemma get_player_rank_on_tuple_Some:
  assumes "rank_query tie pid db = Some (k, m)" and "earners db \<noteq> []"
  shows "get_player_rank_on tuple_connection tie pid db =
     Inr \<lparr>rank_response.player_id = pid, rank = k,
          total_players = int (length (earners db)),
          percentile =
            PyFloat (fl (of_int (round_half_even
               (py_mul (py_truediv (int (length (earners db)) - k)
                          (int (length (earners db)))) 100 * 10)) / 10)),
          earnings = m\<rparr>"
  using assms
  by (simp add: get_player_rank_on_def except_Exception_def total_of_tuple getitem_tuple
      and_then_Inr percentile_of_def py_round1_def)


text \<open>
  On a connection with the driver's default cursor, for a player with a row of positive
  money (player ids being unique), the handler returns the player's rank \<open>k\<close>, which is
  the player's place in the ordered population, the size of the population, the player's
  money, and as percentile the float of the one-decimal number \<open>n / 10\<close>, where \<open>n\<close> is
  ten times \<^verbatim>\<open>(total - rank) / total * 100\<close> (in float arithmetic) rounded to the nearest
  integer: \<open>n / 10\<close> is within 0.05 of that product, and the percentile returned is
  within 0.05 and 2 to the power -45 of the exact value of
  \<open>(total - rank) / total * 100\<close>. With a total of 0 the percentile is the integer 0.
\<close>

lemma get_player_rank_on_tuple_found:
  assumes "distinct (map player_row.player_id db)"
    and "r \<in> set db" and "player_row.total_money r > 0"
  shows "\<exists>k n. get_player_rank_on tuple_connection tie (player_row.player_id r) db =
             Inr \<lparr>rank_response.player_id = player_row.player_id r, rank = k,
                  total_players = int (length (earners db)),
                  percentile = PyFloat (fl (of_int n / 10)),
                  earnings = player_row.total_money r\<rparr>
           \<and> 1 \<le> k \<and> k \<le> int (length (earners db))
           \<and> order_by tie (earners db) ! nat (k - 1) = r
           \<and> n = round_half_even
                 (py_mul (py_truediv (int (length (earners db)) - k)
                            (int (length (earners db)))) 100 * 10)
           \<and> \<bar>of_int n / 10
                - py_mul (py_truediv (int (length (earners db)) - k)
                            (int (length (earners db)))) 100\<bar> \<le> 1 / 20
           \<and> \<bar>fl (of_int n / 10)
                - of_int (int (length (earners db)) - k) / of_int (int (length (earners db))) * 100\<bar>
               \<le> 1 / 20 + 2 powi (- 45)
           \<and> (\<forall>k'. py_round1 (percentile_of 0 k') = PyInt 0)"
proof -
  let ?L = "order_by tie (earners db)"
  let ?t = "int (length (earners db))"
  have "r \<in> set ?L"
    using assms(2,3) by (simp add: set_order_by earners_def)
  then obtain i where i: "i < length ?L" and r: "?L ! i = r"
    by (auto simp: in_set_conv_nth)
  let ?k = "int i + 1"
  let ?p = "py_mul (py_truediv (?t - ?k) ?t) 100"
  let ?n = "round_half_even (?p * 10)"
  have ne: "earners db \<noteq> []"
    using i by (auto simp: length_order_by)
  have q: "rank_query tie (player_row.player_id r) db = Some (?k, player_row.total_money r)"
    using rank_query_Some [OF assms(1) i] by (simp only: r)
  have resp: "get_player_rank_on tuple_connection tie (player_row.player_id r) db =
             Inr \<lparr>rank_response.player_id = player_row.player_id r, rank = ?k,
                  total_players = ?t,
                  percentile = PyFloat (fl (of_int ?n / 10)),
                  earnings = player_row.total_money r\<rparr>"
    by (rule get_player_rank_on_tuple_Some [OF q ne])
  have bounds: "1 \<le> ?k \<and> ?k \<le> ?t"
    using i by (simp add: length_order_by)
  have pos: "?L ! nat (?k - 1) = r"
    using r by simp
  have "\<bar>of_int ?n - ?p * 10\<bar> \<le> 1 / 2"
    by (rule round_half_even_near)
  then have near: "\<bar>of_int ?n / 10 - ?p\<bar> \<le> 1 / 20"
    by (simp add: abs_le_iff field_simps)
  have exact: "\<bar>fl (of_int ?n / 10) - of_int (?t - ?k) / of_int ?t * 100\<bar>
                 \<le> 1 / 20 + 2 powi (- 45)"
    using bounds by (intro percentile_error) simp_all
  have guard: "\<forall>k'. py_round1 (percentile_of 0 k') = PyInt 0"
    by (simp add: percentile_of_def py_round1_def)
  show ?thesis
    using resp bounds pos near exact guard by blast
qed










subsection \<open>The read-only handlers as the server runs them\<close>

text \<open>
  Claim C5, as the handler behaves. On the server's connection \<^verbatim>\<open>get_leaderboard\<close>
  returns no page: when the statement returns rows, \<^verbatim>\<open>result[0]\<close> raises in the first
  round of the loop; when it returns none, \<^verbatim>\<open>total_result[0]\<close> raises after the loop.
  For every table and every limit the caller gets the internal error 500 (for a limit
  that the engine refuses, with the engine's error).
\<close>

theorem get_leaderboard_raises:
  "get_leaderboard now clock tie limit db =
     Inl (HTTPException 500
            (StrOf (if limit < 0 then InvalidRowCountInLimitClause
                    else if limit > 9223372036854775807 then NumericValueOutOfRange
                    else KeyError 0)))"
  by (simp add: get_leaderboard_def get_leaderboard_on_def leaderboard_query_def
      except_Exception_def and_then_Inr and_then_Inl for_each_get_db_connection
      total_of_get_db_connection)

text \<open>
  Claim C8, as the handler behaves. On the server's connection \<^verbatim>\<open>get_global_stats\<close>
  fails on \<^verbatim>\<open>stats[0]\<close>, whatever the table holds: the caller gets the internal error
  500, not the statistics.
\<close>

theorem get_global_stats_raises:
  "get_global_stats numeric_div now clock db = Inl (HTTPException 500 (StrOf (KeyError 0)))"
  by (simp add: get_global_stats_def get_global_stats_on_def except_Exception_def
      getitem_get_db_connection and_then_Inl Let_def)

text \<open>
  Claim C6, as the handler behaves. For a player that the rank statement finds,
  \<^verbatim>\<open>get_player_rank\<close> fails on \<^verbatim>\<open>total_result[0]\<close>: the caller gets the internal error
  500, and neither rank nor percentile.
\<close>

theorem get_player_rank_found_raises:
  assumes "distinct (map player_row.player_id db)"
    and "r \<in> set db" and "player_row.total_money r > 0"
  shows "get_player_rank tie (player_row.player_id r) db =
           Inl (HTTPException 500 (StrOf (KeyError 0)))"
proof -
  have "r \<in> set (order_by tie (earners db))"
    using assms(2,3) by (simp add: set_order_by earners_def)
  then obtain i where i: "i < length (order_by tie (earners db))"
    and r: "order_by tie (earners db) ! i = r"
    by (auto simp: in_set_conv_nth)
  have "rank_query tie (player_row.player_id r) db = Some (int i + 1, player_row.total_money r)"
    using rank_query_Some [OF assms(1) i] by (simp only: r)
  then show ?thesis
    by (simp add: get_player_rank_def get_player_rank_on_def except_Exception_def
        total_of_get_db_connection and_then_Inl)
qed

section \<open>The handlers on sample tables\<close>

lemma earners_sample: "earners sample_db = [alice_row, bob_row]"
  by (simp add: earners_def sample_db_def alice_row_def bob_row_def idle_row_def)

lemma distinct_sample: "distinct (map player_row.player_id sample_db)"
  by (simp add: sample_db_def alice_row_def bob_row_def idle_row_def)

text \<open>
  Claim C3 at the failing input: \<^verbatim>\<open>alice\<close> on the empty table. The row is created and
  the caller gets the error.
\<close>

theorem get_player_unseen_raises_witness:
  "fetch_player ''alice'' [] = None \<and> fetch_player ''alice'' (id []) = None
   \<and> get_player 1 id ''alice'' [] =
       (Inl (HTTPException 500 (StrOf (KeyError 0))),
        id [] @ [\<lparr>player_row.player_id = ''alice'', total_money = 0, total_clicks = 0,
                   best_streak = 0, owned_power_ups = Some [], achievements = Some [],
                   created_at = Some 1, updated_at = Some 1\<rparr>])"
proof -
  have a: "fetch_player ''alice'' [] = None" by (simp add: fetch_player_def)
  have b: "fetch_player ''alice'' (id []) = None" by (simp add: fetch_player_def)
  show ?thesis
    using a b
      get_player_unseen_raises [where pid = "''alice''" and db = "[]" and env = id and now = 1, OF a b]
    by (intro conjI)
qed

text \<open>
  Claim C10 at the failing input: the row of \<^verbatim>\<open>carol\<close>, whose \<^verbatim>\<open>owned_power_ups\<close> is
  NULL.
\<close>

theorem get_player_found_raises_witness:
  "fetch_player ''carol'' [carol_row] = Some carol_row
   \<and> player_row.owned_power_ups carol_row = None
   \<and> get_player 9 id ''carol'' [carol_row] =
       (Inl (HTTPException 500 (StrOf (KeyError 0))), [carol_row])"
proof -
  have f: "fetch_player ''carol'' [carol_row] = Some carol_row"
    by (simp add: fetch_player_def carol_row_def)
  have n: "player_row.owned_power_ups carol_row = None"
    by (simp add: carol_row_def)
  show ?thesis
    using f n get_player_found_raises [OF f, of 9 id] by (intro conjI)
qed

text \<open>
  Claim C4 at the failing input: \<^verbatim>\<open>alice\<close>, saved over her zero-valued row and fetched.
\<close>

theorem save_then_get_raises_witness:
  "fst (save_player 5 ''alice''
          \<lparr>PlayerData.total_money = 100, total_clicks = 50, best_streak = 5,
           owned_power_ups = [''double_tap''], achievements = [''first_click'']\<rparr>
          (concurrent_get_player 1 ''alice'' [])) =
     Inr \<lparr>success = True, message = ''Data saved successfully''\<rparr>
   \<and> fst (get_player 6 id ''alice''
          (snd (save_player 5 ''alice''
             \<lparr>PlayerData.total_money = 100, total_clicks = 50, best_streak = 5,
              owned_power_ups = [''double_tap''], achievements = [''first_click'']\<rparr>
             (concurrent_get_player 1 ''alice'' [])))) =
       Inl (HTTPException 500 (StrOf (KeyError 0)))"
  by (rule save_then_get_raises)

text \<open>Claim C5 at the failing input: the sample table with limit 10.\<close>

theorem get_leaderboard_raises_witness:
  "get_leaderboard 10 11 table_order 10 sample_db =
     Inl (HTTPException 500 (StrOf (KeyError 0)))"
  using get_leaderboard_raises [of 10 11 table_order 10 sample_db] by simp

text \<open>Claim C8 at the failing input: a table whose only player has no money.\<close>

theorem get_global_stats_raises_witness:
  "earners [idle_row] = []
   \<and> get_global_stats exact_div 10 11 [idle_row] = Inl (HTTPException 500 (StrOf (KeyError 0)))"
proof -
  have "earners [idle_row] = []"
    by (simp add: earners_def idle_row_def)
  then show ?thesis
    using get_global_stats_raises [of exact_div 10 11 "[idle_row]"] by (intro conjI)
qed

text \<open>Claim C1 at the failing input: the player \<^verbatim>\<open>eve\<close> has a row and no money.\<close>

theorem get_player_rank_not_found_witness:
  "player_row.player_id idle_row = ''eve'' \<and> player_row.total_money idle_row \<le> 0
   \<and> get_player_rank table_order ''eve'' [idle_row] =
     Inl (HTTPException 500 (StrOf (HTTPException 404 (Msg ''Player not found or no earnings''))))"
proof -
  have h: "\<forall>r \<in> set [idle_row]. player_row.player_id r = ''eve'' \<longrightarrow> player_row.total_money r \<le> 0"
    by (simp add: idle_row_def)
  have "player_row.player_id idle_row = ''eve''" and "player_row.total_money idle_row \<le> 0"
    by (simp_all add: idle_row_def)
  then show ?thesis
    using get_player_rank_not_found [OF h, of table_order] by (intro conjI)
qed

text \<open>Claim C6 at the failing input: \<^verbatim>\<open>bob\<close> in the sample table.\<close>

theorem get_player_rank_found_raises_witness:
  "distinct (map player_row.player_id sample_db)
   \<and> bob_row \<in> set sample_db \<and> player_row.total_money bob_row > 0
   \<and> get_player_rank table_order (player_row.player_id bob_row) sample_db =
       Inl (HTTPException 500 (StrOf (KeyError 0)))"
proof -
  have m: "bob_row \<in> set sample_db" by (simp add: sample_db_def)
  have p: "player_row.total_money bob_row > 0" by (simp add: bob_row_def)
  show ?thesis
    using distinct_sample m p get_player_rank_found_raises [OF distinct_sample m p, of table_order]
    by (intro conjI)
qed






text \<open>
  On the server's connection neither handler returns on that table (claims C5 and C6):
  there is no page and no rank to compare.
\<close>

lemma five_tied_on_get_db_connection:
  "get_leaderboard 10 11 top_n_order 2 five_tied = Inl (HTTPException 500 (StrOf (KeyError 0)))
   \<and> get_player_rank table_order ''p2'' five_tied = Inl (HTTPException 500 (StrOf (KeyError 0)))"
  by code_simp

text \<open>
  The scenario of the specification on a connection with the driver's default cursor:
  \<^verbatim>\<open>bob\<close> is first of two with percentile 50.0, \<^verbatim>\<open>alice\<close> second with percentile 0.0.
\<close>

lemma get_player_rank_on_tuple_bob:
  "get_player_rank_on tuple_connection table_order ''bob'' sample_db =
     Inr \<lparr>rank_response.player_id = ''bob'', rank = 1, total_players = 2,
          percentile = PyFloat 50, earnings = 200\<rparr>"
  by code_simp

lemma get_player_rank_on_tuple_alice:
  "get_player_rank_on tuple_connection table_order ''alice'' sample_db =
     Inr \<lparr>rank_response.player_id = ''alice'', rank = 2, total_players = 2,
          percentile = PyFloat 0, earnings = 100\<rparr>"
  by code_simp

end
